theory Spec2Isabelle
  imports Complex_Main "HOL-Library.AList"
begin

section \<open>Data model\<close>

text \<open>
  The program is a Flask application (new.py; main.py and bachup.py are earlier variants of
  the same handlers) whose whole state is two module-level dictionaries, the files of the
  upload folder, the child processes it has spawned and the one-shot timers it has armed.
  Every handler and background function is modelled as a function from the state to the
  new state. What the program cannot decide itself (the SHA-256 digest, the identifier
  that \<^verbatim>\<open>uuid.uuid4()\<close> draws, the clock, whether a spawn or a write fails, how a child
  reacts to SIGTERM) is a parameter of the function that meets it.
\<close>

type_synonym bytes = string

datatype exn = FileNotFoundError | KeyError | UnboundLocalError | TimeoutExpired

text \<open>
  A child process as the program can observe it: \<open>running\<close> is \<^verbatim>\<open>poll() is None\<close>;
  \<open>exits_on_term\<close> says whether the child exits within the five-second wait that follows
  \<^verbatim>\<open>terminate()\<close>. The process table maps each \<^verbatim>\<open>Popen\<close> handle to its process, so that
  the registry entry and the supervising thread share one process, as the Python objects do.
\<close>

record proc =
  running :: bool
  exits_on_term :: bool

text \<open>
  One value of \<^verbatim>\<open>active_streams\<close>: the dictionary built at new.py lines 150-155, with the
  \<^verbatim>\<open>error\<close> key that only the exception handler adds.
\<close>

record stream =
  process :: "nat option"
  status :: string
  task_id :: string
  start_time :: string
  error :: "string option"

text \<open>The two closures handed to \<^verbatim>\<open>threading.Timer\<close>, with their delay in seconds.\<close>

datatype timer_action = DeleteIfNotStreamed string string | PopStream string

record state =
  files :: "(string \<times> bytes) list"
  video_hashes :: "string \<rightharpoonup> string"
  active_streams :: "string \<rightharpoonup> stream"
  procs :: "nat \<Rightarrow> proc"
  next_pid :: nat
  timers :: "(nat \<times> timer_action) list"

text \<open>
  \<open>files\<close> lists path and content of every stored file, in the order in which
  \<^verbatim>\<open>os.listdir\<close> reports them. The log files under \<^verbatim>\<open>logs/\<close> are written and never read:
  they are left out.
\<close>

datatype jval = JStr string | JNum int

record response =
  status_code :: nat
  body :: "(string \<times> jval) list"

section \<open>File names and the file system\<close>

definition UPLOAD_FOLDER :: string where
  "UPLOAD_FOLDER = ''uploads''"

definition ALLOWED_EXTENSIONS :: "string set" where
  "ALLOWED_EXTENSIONS = {''mp4'', ''mov'', ''avi'', ''mkv'', ''webm''}"

text \<open>
  \<^verbatim>\<open>str.lower\<close> and \<^verbatim>\<open>str.upper\<close> follow the Unicode case tables. The functions that call
  them take them as the parameters \<open>lower\<close> and \<open>upper\<close>, so that what is proved holds for
  Python's own. \<open>ascii_lower\<close> and \<open>ascii_upper\<close> are what they do on ASCII text; the
  example inputs, which are ASCII, use them.
\<close>

definition ascii_lower_char :: "char \<Rightarrow> char" where
  "ascii_lower_char c =
     (let n = (of_char c :: nat) in if 65 \<le> n \<and> n \<le> 90 then char_of (n + 32) else c)"

definition ascii_lower :: "string \<Rightarrow> string" where
  "ascii_lower s = map ascii_lower_char s"

definition ascii_upper_char :: "char \<Rightarrow> char" where
  "ascii_upper_char c =
     (let n = (of_char c :: nat) in if 97 \<le> n \<and> n \<le> 122 then char_of (n - 32) else c)"

definition ascii_upper :: "string \<Rightarrow> string" where
  "ascii_upper s = map ascii_upper_char s"

text \<open>
  \<^verbatim>\<open>filename.rsplit('.', 1)[1]\<close>: the text after the last dot. Both call sites are guarded
  by \<^verbatim>\<open>'.' in filename\<close>, so the index 1 exists there.
\<close>

definition rsplit_dot :: "string \<Rightarrow> string" where
  "rsplit_dot filename = rev (takeWhile (\<lambda>c. c \<noteq> CHR ''.'') (rev filename))"

definition allowed_file :: "(string \<Rightarrow> string) \<Rightarrow> string \<Rightarrow> bool" where
  "allowed_file lower filename \<longleftrightarrow>
     CHR ''.'' \<in> set filename \<and> lower (rsplit_dot filename) \<in> ALLOWED_EXTENSIONS"

text \<open>
  \<^verbatim>\<open>os.path.join\<close> of the upload folder and a file name. The names built by the program
  start with the owner tag of the URL and never with a slash, so the join is the plain
  concatenation.
\<close>

definition os_path_join :: "string \<Rightarrow> string \<Rightarrow> string" where
  "os_path_join d f = d @ ''/'' @ f"

definition os_path_exists :: "(string \<times> bytes) list \<Rightarrow> string \<Rightarrow> bool" where
  "os_path_exists fs p \<longleftrightarrow> map_of fs p \<noteq> None"

definition os_remove :: "(string \<times> bytes) list \<Rightarrow> string \<Rightarrow> exn + (string \<times> bytes) list" where
  "os_remove fs p = (if os_path_exists fs p then Inr (AList.delete p fs) else Inl FileNotFoundError)"

definition os_listdir :: "(string \<times> bytes) list \<Rightarrow> string \<Rightarrow> string list" where
  "os_listdir fs d =
     map (\<lambda>(p, c). drop (length d + 1) p) (filter (\<lambda>(p, c). take (length d + 1) p = d @ ''/'') fs)"

text \<open>
  \<^verbatim>\<open>compute_file_hash\<close> reads the file in chunks of 4096 bytes and feeds them to one
  SHA-256 object: the digest of the whole content. The digest function is the parameter
  \<open>H\<close>; opening a missing file raises.
\<close>

definition compute_file_hash :: "(bytes \<Rightarrow> string) \<Rightarrow> (string \<times> bytes) list \<Rightarrow> string \<Rightarrow> exn + string" where
  "compute_file_hash H fs file_path =
     (case map_of fs file_path of None \<Rightarrow> Inl FileNotFoundError | Some c \<Rightarrow> Inr (H c))"

section \<open>Upload and deduplication\<close>

text \<open>
  The loop \<^verbatim>\<open>for file_hash, vid in list(video_hashes.items()): if vid == video_id: del
  video_hashes[file_hash]\<close>, which both \<^verbatim>\<open>delete_if_not_streamed\<close> and the cleanup of
  \<^verbatim>\<open>run_ffmpeg_stream\<close> run after removing a file.
\<close>

definition del_hashes_of :: "string \<Rightarrow> (string \<rightharpoonup> string) \<Rightarrow> (string \<rightharpoonup> string)" where
  "del_hashes_of video_id vh = (\<lambda>h. if vh h = Some video_id then None else vh h)"


text \<open>
  \<^verbatim>\<open>post_process\<close> (new.py lines 78-88), the thread started by every accepted upload. It
  holds no lock, and the membership test of line 81 and the branch it selects are separate
  statements: \<open>pp_step\<close> runs one of them at a time. \<open>Hashing\<close> is the thread before line 81,
  \<open>Checked h dup\<close> the thread that has computed the digest \<open>h\<close> and evaluated
  \<^verbatim>\<open>file_hash in video_hashes\<close> to \<open>dup\<close>, \<open>Finished\<close> the thread after its branch or after the
  handler of line 87 has swallowed an exception.
\<close>

datatype pp_pc = Hashing | Checked string bool | Finished

definition pp_step ::
  "(bytes \<Rightarrow> string) \<Rightarrow> string \<Rightarrow> string \<Rightarrow> pp_pc \<Rightarrow> state \<Rightarrow> pp_pc \<times> state" where
  "pp_step H video_id save_path pc st =
     (case pc of
        Hashing \<Rightarrow>
          (case compute_file_hash H (files st) save_path of
             Inl e \<Rightarrow> (Finished, st)
           | Inr file_hash \<Rightarrow> (Checked file_hash (video_hashes st file_hash \<noteq> None), st))
      | Checked file_hash dup \<Rightarrow>
          (if dup then
             (case os_remove (files st) save_path of
                Inl e \<Rightarrow> (Finished, st)
              | Inr fs \<Rightarrow> (Finished, st\<lparr>files := fs\<rparr>))
           else
             (Finished,
              st\<lparr>video_hashes := (video_hashes st)(file_hash \<mapsto> video_id),
                 timers := timers st @ [(15 * 60, DeleteIfNotStreamed video_id save_path)]\<rparr>))
      | Finished \<Rightarrow> (Finished, st))"

text \<open>The thread run without interruption: both steps, one after the other.\<close>

definition post_process :: "(bytes \<Rightarrow> string) \<Rightarrow> string \<Rightarrow> string \<Rightarrow> state \<Rightarrow> state" where
  "post_process H video_id save_path st =
     (let (pc1, st1) = pp_step H video_id save_path Hashing st
      in snd (pp_step H video_id save_path pc1 st1))"

text \<open>
  Two such threads under a schedule: each entry of the schedule names the thread that runs
  its next step (\<open>False\<close> the first, \<open>True\<close> the second).
\<close>

fun run_pair ::
  "(bytes \<Rightarrow> string) \<Rightarrow> string \<times> string \<Rightarrow> string \<times> string \<Rightarrow> bool list \<Rightarrow>
     pp_pc \<times> pp_pc \<times> state \<Rightarrow> pp_pc \<times> pp_pc \<times> state" where
  "run_pair H a b [] cfg = cfg"
| "run_pair H a b (t # sched) (pa, pb, st) =
     (if t then
        (let (pb', st') = pp_step H (fst b) (snd b) pb st in run_pair H a b sched (pa, pb', st'))
      else
        (let (pa', st') = pp_step H (fst a) (snd a) pa st in run_pair H a b sched (pa', pb, st')))"

text \<open>
  \<^verbatim>\<open>upload_video\<close> of new.py (lines 51-94). \<open>request_files\<close> is \<^verbatim>\<open>request.files\<close>: the form
  field name mapped to the file name and the bytes of the upload. \<open>fresh\<close> is the identifier
  \<^verbatim>\<open>str(uuid.uuid4())\<close>. \<open>io_error\<close> is \<open>None\<close> when the chunked copy of lines 64-69 completes,
  and \<open>Some (msg, partial)\<close> when it raises \<open>msg\<close>, leaving \<open>partial\<close> on disk (\<open>None\<close>: no
  file was created). The third component of the result is the thread that line 90 starts:
  the arguments \<^verbatim>\<open>video_id\<close> and \<^verbatim>\<open>save_path\<close> that the closure \<^verbatim>\<open>post_process\<close> captures.
  \<^verbatim>\<open>file\<close> is truthy when its file name is not empty, which line 56 has checked.
\<close>

definition error_response :: "nat \<Rightarrow> string \<Rightarrow> response" where
  "error_response c msg = \<lparr>status_code = c, body = [(''error'', JStr msg)]\<rparr>"

definition upload_video ::
  "(string \<Rightarrow> string) \<Rightarrow> string \<Rightarrow> (string \<rightharpoonup> string \<times> bytes) \<Rightarrow> string \<Rightarrow>
     (string \<times> bytes option) option \<Rightarrow> state \<Rightarrow> response \<times> state \<times> (string \<times> string) option" where
  "upload_video lower email request_files fresh io_error st =
     (case request_files ''video'' of
        None \<Rightarrow> (error_response 400 ''No video file provided'', st, None)
      | Some (file_name, content) \<Rightarrow>
          if file_name = [] then (error_response 400 ''No selected file'', st, None)
          else if allowed_file lower file_name then
            (let video_id = fresh;
                 ext = lower (rsplit_dot file_name);
                 filename = email @ ''_'' @ video_id @ ''.'' @ ext;
                 save_path = os_path_join UPLOAD_FOLDER filename
             in case io_error of
                  Some (msg, partial) \<Rightarrow>
                    (error_response 500 msg,
                     (case partial of None \<Rightarrow> st
                      | Some b \<Rightarrow> st\<lparr>files := AList.update save_path b (files st)\<rparr>),
                     None)
                | None \<Rightarrow>
                    (\<lparr>status_code = 200,
                      body = [(''message'', JStr ''File uploaded successfully''),
                              (''videoId'', JStr video_id),
                              (''filename'', JStr filename),
                              (''duration'', JNum 120)]\<rparr>,
                     st\<lparr>files := AList.update save_path content (files st)\<rparr>,
                     Some (video_id, save_path)))
          else (error_response 400 ''Invalid file type'', st, None))"

text \<open>
  \<^verbatim>\<open>upload_video\<close> of main.py (lines 55-108): the same checks, but the digest is computed
  and the index consulted inside the request, and a duplicate is answered with the id of
  the earlier asset. \<open>io_error\<close> is the exception of \<^verbatim>\<open>file.save\<close>, if it raises.
\<close>

definition upload_video_main ::
  "(bytes \<Rightarrow> string) \<Rightarrow> (string \<Rightarrow> string) \<Rightarrow> string \<Rightarrow> (string \<rightharpoonup> string \<times> bytes) \<Rightarrow> string \<Rightarrow>
     (string \<times> bytes option) option \<Rightarrow> state \<Rightarrow> response \<times> state" where
  "upload_video_main H lower email request_files fresh io_error st =
     (case request_files ''video'' of
        None \<Rightarrow> (error_response 400 ''No video file provided'', st)
      | Some (file_name, content) \<Rightarrow>
          if file_name = [] then (error_response 400 ''No selected file'', st)
          else if allowed_file lower file_name then
            (let video_id = fresh;
                 ext = lower (rsplit_dot file_name);
                 filename = email @ ''_'' @ video_id @ ''.'' @ ext;
                 save_path = os_path_join UPLOAD_FOLDER filename
             in case io_error of
                  Some (msg, partial) \<Rightarrow>
                    (error_response 500 msg,
                     (case partial of None \<Rightarrow> st
                      | Some b \<Rightarrow> st\<lparr>files := AList.update save_path b (files st)\<rparr>))
                | None \<Rightarrow>
                    (let st1 = st\<lparr>files := AList.update save_path content (files st)\<rparr>;
                         file_hash = H content
                     in case video_hashes st1 file_hash of
                          Some existing_video_id \<Rightarrow>
                            (\<lparr>status_code = 200,
                              body = [(''message'', JStr ''Duplicate video''),
                                      (''videoId'', JStr existing_video_id)]\<rparr>,
                             st1\<lparr>files := AList.delete save_path (files st1)\<rparr>)
                        | None \<Rightarrow>
                            (let duration = 120 in
                             (\<lparr>status_code = 200,
                               body = [(''message'', JStr ''File uploaded successfully''),
                                       (''videoId'', JStr video_id),
                                       (''filename'', JStr filename),
                                       (''duration'', JNum duration)]\<rparr>,
                              st1\<lparr>video_hashes := (video_hashes st1)(file_hash \<mapsto> video_id),
                                  timers := timers st1 @
                                    [(15 * 60, DeleteIfNotStreamed video_id save_path)]\<rparr>))))
          else (error_response 400 ''Invalid file type'', st))"

section \<open>The platform table and the child-process command\<close>

text \<open>
  \<^verbatim>\<open>run_ffmpeg_stream\<close> (new.py, lines 109-139) chooses the destination URL and the encoder
  flags by an \<^verbatim>\<open>if/elif\<close> chain over \<^verbatim>\<open>platform\<close>; the final \<^verbatim>\<open>else\<close> returns before
  anything is spawned. The chain is the function \<open>platform_table\<close>: \<open>None\<close> is the
  \<^verbatim>\<open>else\<close> branch, \<open>Some (output_url, common_flags, format_flags)\<close> the three locals
  that a recognised platform binds. The values \<^verbatim>\<open>stream_key\<close> and \<^verbatim>\<open>loops\<close> are the texts
  that the f-strings render for the caller's JSON values.
\<close>

definition ffmpeg_path :: string where
  "ffmpeg_path = ''/usr/local/bin/ffmpeg''"

definition ffmpeg_input :: "string \<Rightarrow> string \<Rightarrow> string" where
  "ffmpeg_input loops video_path =
     ''-re -stream_loop '' @ loops @ '' -i \"'' @ video_path @ ''\"''"

definition platform_table :: "string \<Rightarrow> string \<Rightarrow> (string \<times> string \<times> string) option" where
  "platform_table platform stream_key =
     (if platform = ''youtube'' then
        Some (''rtmp://a.rtmp.youtube.com/live2/'' @ stream_key,
              ''-c:v libx264 -preset veryfast -b:v 2500k -maxrate 2500k -bufsize 512k'',
              ''-f flv'')
      else if platform = ''facebook'' then
        Some (''rtmps://live-api-s.facebook.com:443/rtmp/'' @ stream_key,
              ''-c:v libx264 -preset veryfast -b:v 4500k -minrate 4500k '' @
              ''-maxrate 4500k -bufsize 9000k -x264-params nal-hrd=cbr:force-cfr=1 '' @
              ''-c:a aac -b:a 128k -ar 44100 -ac 2'',
              ''-f flv'')
      else if platform = ''instagram'' then
        Some (''rtmps://edgetee-upload-del2-1.xx.fbcdn.net:443/rtmp/'' @ stream_key,
              ''-c:v libx264 -preset veryfast -b:v 6000k -minrate 6000k '' @
              ''-maxrate 6000k -bufsize 12000k -x264-params nal-hrd=cbr:force-cfr=1 '' @
              ''-c:a aac -b:a 128k -ar 44100 -ac 2'',
              ''-f flv'')
      else if platform = ''twitter'' then
        Some (''rtmps://live.twitter.com/'' @ stream_key,
              ''-c:v libx264 -preset veryfast -b:v 2500k -maxrate 2500k -bufsize 5000k -c:a aac -b:a 128k -ar 44100 -ac 2'',
              ''-f flv'')
      else None)"

definition output_url :: "string \<Rightarrow> string \<Rightarrow> string option" where
  "output_url platform stream_key = map_option fst (platform_table platform stream_key)"

definition base_cmd :: "string \<Rightarrow> string \<Rightarrow> string \<Rightarrow> string \<Rightarrow> string option" where
  "base_cmd video_path stream_key loops platform =
     (case platform_table platform stream_key of
        None \<Rightarrow> None
      | Some (url, common_flags, format_flags) \<Rightarrow>
          Some (ffmpeg_path @ '' '' @ ffmpeg_input loops video_path @ '' '' @ common_flags @
                '' '' @ format_flags @ '' \"'' @ url @ ''\"''))"

text \<open>The text that follows the encoder flags in the command: the quoted destination.\<close>

definition quoted :: "string \<Rightarrow> string" where
  "quoted url = '' \"'' @ url @ ''\"''"

section \<open>The process supervisor\<close>

text \<open>
  \<^verbatim>\<open>cleanup_process\<close> (new.py lines 99-107, main.py lines 110-119). \<^verbatim>\<open>terminate()\<close> sends
  SIGTERM; \<^verbatim>\<open>wait(timeout=5)\<close> returns when the child has exited within five seconds and
  raises \<^verbatim>\<open>TimeoutExpired\<close> otherwise; \<^verbatim>\<open>kill()\<close> ends the child unconditionally. The
  handler of line 106 swallows every exception of the block.
\<close>

definition terminate :: "(nat \<Rightarrow> proc) \<Rightarrow> nat \<Rightarrow> (nat \<Rightarrow> proc)" where
  "terminate ps p = (if exits_on_term (ps p) then ps(p := (ps p)\<lparr>running := False\<rparr>) else ps)"

definition wait_timeout :: "(nat \<Rightarrow> proc) \<Rightarrow> nat \<Rightarrow> exn + unit" where
  "wait_timeout ps p = (if running (ps p) then Inl TimeoutExpired else Inr ())"

definition kill :: "(nat \<Rightarrow> proc) \<Rightarrow> nat \<Rightarrow> (nat \<Rightarrow> proc)" where
  "kill ps p = ps(p := (ps p)\<lparr>running := False\<rparr>)"

definition cleanup_process :: "(nat \<Rightarrow> proc) \<Rightarrow> nat option \<Rightarrow> (nat \<Rightarrow> proc)" where
  "cleanup_process ps proc_handle =
     (case proc_handle of
        None \<Rightarrow> ps
      | Some p \<Rightarrow>
          if running (ps p) then
            (let ps1 = terminate ps p in
             case wait_timeout ps1 p of
               Inl e \<Rightarrow> ps1
             | Inr u \<Rightarrow> if running (ps1 p) then kill ps1 p else ps1)
          else ps)"

text \<open>
  The two assignments to a registry entry. \<^verbatim>\<open>active_streams[video_id]['status'] = s\<close> raises
  \<^verbatim>\<open>KeyError\<close> when the entry is absent. The handler of lines 162-165 makes the same lookup:
  when the entry is absent the handler itself raises and nothing is written.
\<close>

definition set_status :: "string \<Rightarrow> string \<Rightarrow> state \<Rightarrow> exn + state" where
  "set_status video_id s st =
     (case active_streams st video_id of
        None \<Rightarrow> Inl KeyError
      | Some e \<Rightarrow> Inr (st\<lparr>active_streams := (active_streams st)(video_id \<mapsto> e\<lparr>status := s\<rparr>)\<rparr>))"

definition on_exception :: "string \<Rightarrow> string \<Rightarrow> state \<Rightarrow> state" where
  "on_exception video_id msg st =
     (case active_streams st video_id of
        None \<Rightarrow> st
      | Some e \<Rightarrow>
          st\<lparr>active_streams :=
               (active_streams st)(video_id \<mapsto> e\<lparr>status := ''error'', error := Some msg\<rparr>)\<rparr>)"

text \<open>\<^verbatim>\<open>str(e)\<close> of the \<^verbatim>\<open>KeyError\<close> raised for a missing video id: the quoted key.\<close>

definition key_error_text :: "string \<Rightarrow> string" where
  "key_error_text video_id = [CHR 39] @ video_id @ [CHR 39]"

text \<open>
  The retry loop of lines 169-183. \<open>raises\<close> says, for each successive call of
  \<^verbatim>\<open>os.remove\<close>, whether the operating system refuses it (the file is still held open);
  an exhausted list means no further refusal.
\<close>

function delete_video :: "nat \<Rightarrow> bool list \<Rightarrow> string \<Rightarrow> string \<Rightarrow> state \<Rightarrow> state" where
  "delete_video attempts raises video_path video_id st =
     (if attempts < 5 then
        (if os_path_exists (files st) video_path then
           (if raises \<noteq> [] \<and> hd raises then
              delete_video (attempts + 1) (tl raises) video_path video_id st
            else
              st\<lparr>files := AList.delete video_path (files st),
                 video_hashes := del_hashes_of video_id (video_hashes st)\<rparr>)
         else st)
      else st)"
  by pat_completeness auto
termination
  by (relation "measure (\<lambda>(attempts, raises, video_path, video_id, st). 5 - attempts)") auto

text \<open>
  \<^verbatim>\<open>run_ffmpeg_stream\<close> (new.py lines 109-184) runs on a thread of its own and blocks twice,
  in \<^verbatim>\<open>time.sleep(5)\<close> and in \<^verbatim>\<open>process.wait()\<close>. The function below runs the thread from
  one blocking point to the next; its argument \<open>pc\<close> says where the thread stands:
  \<^item> \<open>Start\<close>: lines 110-155. An unknown platform returns at line 137; a failing
    \<^verbatim>\<open>open\<close> or \<^verbatim>\<open>Popen\<close> of lines 141-148 (\<open>popen = Inl msg\<close>) enters the handler
    (\<^verbatim>\<open>os.makedirs\<close> of line 111 is taken to succeed). On both paths
    the \<^verbatim>\<open>finally\<close> block then reads the local \<^verbatim>\<open>process\<close>, which was never bound, and the
    thread ends with \<^verbatim>\<open>UnboundLocalError\<close> at line 167. Otherwise the child is spawned
    (\<open>popen = Inr e\<close>, with \<open>e\<close> its reaction to SIGTERM) and registered as \<open>starting\<close>.
  \<^item> \<open>Sleeping p\<close>: line 158, after the five seconds.
  \<^item> \<open>Waiting p\<close>: lines 159-160; the step is blocked while the child runs.
  \<^item> \<open>Cleanup p e\<close>: the \<^verbatim>\<open>finally\<close> block, lines 167-184, with the exception \<open>e\<close> that is
    raised again after it.
  \<^item> \<open>Dead e\<close>: the thread has ended, with the exception \<open>e\<close> if any.
  main.py (lines 121-199) and bachup.py make the same registry writes in the same order;
  they differ in the command line, and main.py, which has no platform argument, never
  returns early.
\<close>

datatype pc = Start | Sleeping nat | Waiting nat | Cleanup nat "exn option" | Dead "exn option"

definition run_ffmpeg_stream ::
  "string \<Rightarrow> string \<Rightarrow> string \<Rightarrow> string \<Rightarrow> string \<Rightarrow> string \<Rightarrow>
     string + bool \<Rightarrow> string \<Rightarrow> bool list \<Rightarrow> pc \<Rightarrow> state \<Rightarrow> pc \<times> state" where
  "run_ffmpeg_stream video_path stream_key loops video_id task_id_arg platform popen now raises pc st =
     (case pc of
        Start \<Rightarrow>
          (case base_cmd video_path stream_key loops platform of
             None \<Rightarrow> (Dead (Some UnboundLocalError), st)
           | Some cmd \<Rightarrow>
               (case popen of
                  Inl msg \<Rightarrow> (Dead (Some UnboundLocalError), on_exception video_id msg st)
                | Inr e \<Rightarrow>
                    (let p = next_pid st in
                     (Sleeping p,
                      st\<lparr>procs := (procs st)(p := \<lparr>running = True, exits_on_term = e\<rparr>),
                         next_pid := Suc p,
                         active_streams := (active_streams st)(video_id \<mapsto>
                           \<lparr>process = Some p, status = ''starting'', task_id = task_id_arg,
                            start_time = now, error = None\<rparr>)\<rparr>))))
      | Sleeping p \<Rightarrow>
          (case set_status video_id ''live'' st of
             Inr st' \<Rightarrow> (Waiting p, st')
           | Inl e \<Rightarrow> (Cleanup p (Some KeyError), on_exception video_id (key_error_text video_id) st))
      | Waiting p \<Rightarrow>
          (if running (procs st p) then (Waiting p, st)
           else
             (case set_status video_id ''completed'' st of
                Inr st' \<Rightarrow> (Cleanup p None, st')
              | Inl e \<Rightarrow>
                  (Cleanup p (Some KeyError), on_exception video_id (key_error_text video_id) st)))
      | Cleanup p e \<Rightarrow>
          (let st1 = st\<lparr>procs := cleanup_process (procs st) (Some p)\<rparr>;
               st2 = delete_video 0 raises video_path video_id st1
           in (Dead e, st2\<lparr>timers := timers st2 @ [(300, PopStream video_id)]\<rparr>))
      | Dead e \<Rightarrow> (Dead e, st))"

text \<open>What the environment does to a child: it exits on its own.\<close>

definition child_exits :: "nat \<Rightarrow> state \<Rightarrow> state" where
  "child_exits p st = st\<lparr>procs := (procs st)(p := (procs st p)\<lparr>running := False\<rparr>)\<rparr>"


section \<open>The HTTP handlers of the relay\<close>

text \<open>\<^verbatim>\<open>video_id in f\<close>: the substring test of line 192.\<close>

fun in_str :: "string \<Rightarrow> string \<Rightarrow> bool" where
  "in_str v [] \<longleftrightarrow> v = []"
| "in_str v (c # cs) \<longleftrightarrow> take (length v) (c # cs) = v \<or> in_str v cs"

text \<open>
  \<^verbatim>\<open>start_stream\<close> (new.py lines 186-202). \<open>data\<close> is the JSON object of the request, each
  field with the text of its value. The handler changes no state; its second result is
  the argument tuple of the thread that line 201 starts.
\<close>

definition start_stream ::
  "string \<Rightarrow> (string \<rightharpoonup> string) \<Rightarrow> state \<Rightarrow>
     response \<times> (string \<times> string \<times> string \<times> string \<times> string \<times> string) option" where
  "start_stream video_id data st =
     (if \<not> list_all (\<lambda>field. data field \<noteq> None) [''streamKey'', ''loops'', ''taskId'', ''platform'']
      then (error_response 400 ''Missing required fields'', None)
      else
        (let video_files = filter (in_str video_id) (os_listdir (files st) UPLOAD_FOLDER) in
         if video_files = [] then (error_response 404 ''Video file not found'', None)
         else
           (let video_path = os_path_join UPLOAD_FOLDER (hd video_files) in
            (\<lparr>status_code = 200,
              body = [(''message'', JStr ''Stream starting''), (''videoId'', JStr video_id)]\<rparr>,
             Some (video_path, the (data ''streamKey''), the (data ''loops''), video_id,
                   the (data ''taskId''), the (data ''platform''))))))"

text \<open>\<^verbatim>\<open>stop_stream\<close> (main.py lines 230-245).\<close>

definition stop_stream :: "string \<Rightarrow> state \<Rightarrow> response \<times> state" where
  "stop_stream video_id st =
     (case active_streams st video_id of
        None \<Rightarrow> (error_response 404 ''Stream not found'', st)
      | Some stream_data \<Rightarrow>
          (let ps = (case process stream_data of
                       Some p \<Rightarrow> cleanup_process (procs st) (Some p)
                     | None \<Rightarrow> procs st);
               stopped = stream_data\<lparr>status := ''stopped'', process := None\<rparr>;
               reg = (active_streams st)(video_id \<mapsto> stopped)
           in (\<lparr>status_code = 200, body = [(''message'', JStr ''Stream stopped successfully'')]\<rparr>,
               st\<lparr>procs := ps, active_streams := reg(video_id := None)\<rparr>)))"

text \<open>
  \<^verbatim>\<open>get_stream_status\<close> (main.py lines 247-260). The entry is updated in place when the
  child is seen to have exited. The result is the 404 response, or the entry that the
  handler passes to \<^verbatim>\<open>jsonify\<close> with status 200. An entry whose child is still running
  holds the \<^verbatim>\<open>Popen\<close> object, which \<^verbatim>\<open>jsonify\<close> cannot serialise: it raises \<^verbatim>\<open>TypeError\<close>,
  and Flask answers the request with status 500 and its own error page.
\<close>

definition server_error :: response where
  "server_error = \<lparr>status_code = 500, body = []\<rparr>"

definition get_stream_status :: "string \<Rightarrow> state \<Rightarrow> (response + stream) \<times> state" where
  "get_stream_status video_id st =
     (case active_streams st video_id of
        None \<Rightarrow> (Inl (error_response 404 ''Stream not found''), st)
      | Some stream \<Rightarrow>
          (let stream' =
                 (case process stream of
                    Some p \<Rightarrow>
                      if \<not> running (procs st p)
                      then stream\<lparr>status := ''completed'', process := None\<rparr>
                      else stream
                  | None \<Rightarrow> stream)
           in (if process stream' = None then Inr stream' else Inl server_error,
               st\<lparr>active_streams := (active_streams st)(video_id \<mapsto> stream')\<rparr>)))"

section \<open>The market-data proxy\<close>

text \<open>
  \<^verbatim>\<open>index_cache\<close> and \<^verbatim>\<open>equity_cache\<close> (Nse.py) map a symbol to the upstream document and
  the time of its fetch; \<^verbatim>\<open>equity_cookie_cache\<close> (new.py) holds one cookie header and the
  time it was obtained. The clock of \<^verbatim>\<open>time.time()\<close> is read as a real number of seconds.
  \<open>fetched\<close> records the URLs requested from the upstream service, in order.
\<close>

record 'd cache_entry =
  data :: 'd
  timestamp :: real

record 'd nse_state =
  index_cache :: "string \<rightharpoonup> 'd cache_entry"
  equity_cache :: "string \<rightharpoonup> 'd cache_entry"
  equity_cookie_cache :: "string option \<times> real"
  fetched :: "string list"

datatype 'd nse_body = Document 'd | ErrorBody string

text \<open>
  What \<^verbatim>\<open>requests.get\<close> meets: \<open>Unreachable msg\<close> when the call itself raises \<open>msg\<close>
  (no connection, timeout); otherwise \<open>Reply code err js\<close>, a response with the HTTP status
  \<open>code\<close>, for which \<^verbatim>\<open>raise_for_status()\<close> would raise \<open>err\<close> when the status is an error
  status, and whose \<^verbatim>\<open>json()\<close> yields \<open>js\<close>: the document, or the message it raises on a
  body that is not JSON.
\<close>

datatype 'd reply = Unreachable string | Reply nat string "string + 'd"

text \<open>
  The request of a \<^verbatim>\<open>try\<close> block. new.py (lines 224-226 and 255-257) calls
  \<^verbatim>\<open>raise_for_status()\<close> between \<^verbatim>\<open>requests.get\<close> and \<^verbatim>\<open>json()\<close>; Nse.py (lines 22 and 42)
  calls \<^verbatim>\<open>requests.get(url, timeout=10).json()\<close> and never looks at the status. The flag
  \<open>raise_for_status\<close> says which of the two is run.
\<close>

definition fetch_json :: "bool \<Rightarrow> 'd reply \<Rightarrow> string + 'd" where
  "fetch_json raise_for_status r =
     (case r of
        Unreachable msg \<Rightarrow> Inl msg
      | Reply code err js \<Rightarrow>
          if raise_for_status \<and> 400 \<le> code \<and> code < 600 then Inl err else js)"

text \<open>
  \<^verbatim>\<open>nse_index\<close> (new.py lines 211-230 with \<open>raise_for_status = True\<close>, Nse.py lines 11-26
  with \<open>raise_for_status = False\<close>). \<open>symbol_arg\<close> is the query parameter \<^verbatim>\<open>symbol\<close>, \<open>now\<close>
  the clock, \<open>upstream url\<close> what the request for \<open>url\<close> meets.
\<close>

definition nse_index ::
  "bool \<Rightarrow> (string \<Rightarrow> string) \<Rightarrow> string option \<Rightarrow> real \<Rightarrow> (string \<Rightarrow> 'd reply) \<Rightarrow> 'd nse_state \<Rightarrow>
     (nat \<times> 'd nse_body) \<times> 'd nse_state" where
  "nse_index raise_for_status upper symbol_arg now upstream st =
     (let symbol = upper (case symbol_arg of None \<Rightarrow> ''NIFTY'' | Some s \<Rightarrow> s);
          hit = (case index_cache st symbol of
                   None \<Rightarrow> False
                 | Some e \<Rightarrow> now - timestamp e < 30)
      in if hit then ((200, Document (data (the (index_cache st symbol)))), st)
         else
           (let url = ''https://www.nseindia.com/api/option-chain-indices?symbol='' @ symbol;
                st1 = st\<lparr>fetched := fetched st @ [url]\<rparr>
            in case fetch_json raise_for_status (upstream url) of
                 Inr d \<Rightarrow>
                   ((200, Document d),
                    st1\<lparr>index_cache := (index_cache st1)(symbol \<mapsto> \<lparr>data = d, timestamp = now\<rparr>)\<rparr>)
               | Inl msg \<Rightarrow> ((500, ErrorBody msg), st1)))"

text \<open>
  \<^verbatim>\<open>nse_equity\<close> of Nse.py (lines 30-46): the same handler over \<^verbatim>\<open>equity_cache\<close>, with no
  default symbol.
\<close>

definition nse_equity_Nse ::
  "(string \<Rightarrow> string) \<Rightarrow> string option \<Rightarrow> real \<Rightarrow> (string \<Rightarrow> 'd reply) \<Rightarrow> 'd nse_state \<Rightarrow>
     (nat \<times> 'd nse_body) \<times> 'd nse_state" where
  "nse_equity_Nse upper symbol_arg now upstream st =
     (let symbol = upper (case symbol_arg of None \<Rightarrow> [] | Some s \<Rightarrow> s) in
      if symbol = [] then ((400, ErrorBody ''Symbol is required''), st)
      else
        (let hit = (case equity_cache st symbol of
                      None \<Rightarrow> False
                    | Some e \<Rightarrow> now - timestamp e < 30)
         in if hit then ((200, Document (data (the (equity_cache st symbol)))), st)
            else
              (let url = ''https://www.nseindia.com/api/option-chain-equities?symbol='' @ symbol;
                   st1 = st\<lparr>fetched := fetched st @ [url]\<rparr>
               in case fetch_json False (upstream url) of
                    Inr d \<Rightarrow>
                      ((200, Document d),
                       st1\<lparr>equity_cache :=
                             (equity_cache st1)(symbol \<mapsto> \<lparr>data = d, timestamp = now\<rparr>)\<rparr>)
                  | Inl msg \<Rightarrow> ((500, ErrorBody msg), st1))))"

text \<open>
  \<^verbatim>\<open>get_nse_cookies\<close> (new.py lines 233-245). \<open>browser\<close> is the outcome of the headless
  browser session: the cookie header it collects, or the message of the exception it
  raises. A cached header is used when it is a non-empty string younger than 300 seconds.
\<close>

definition get_nse_cookies ::
  "real \<Rightarrow> string + string \<Rightarrow> 'd nse_state \<Rightarrow> (string + string) \<times> 'd nse_state" where
  "get_nse_cookies now browser st =
     (case equity_cookie_cache st of
        (cookie, t) \<Rightarrow>
          if cookie \<noteq> None \<and> cookie \<noteq> Some [] \<and> now - t < 300 then (Inr (the cookie), st)
          else
            (case browser of
               Inl msg \<Rightarrow> (Inl msg, st)
             | Inr cookie_header \<Rightarrow>
                 (Inr cookie_header, st\<lparr>equity_cookie_cache := (Some cookie_header, now)\<rparr>)))"

text \<open>
  \<^verbatim>\<open>nse_equity\<close> of new.py (lines 259-269) with \<^verbatim>\<open>fetch_equity_option_chain\<close> (lines
  247-257): no document is cached; \<open>upstream url cookie\<close> is what the request for \<open>url\<close>
  with that cookie header meets.
\<close>

definition nse_equity ::
  "(string \<Rightarrow> string) \<Rightarrow> string option \<Rightarrow> real \<Rightarrow> string + string \<Rightarrow> (string \<Rightarrow> string \<Rightarrow> 'd reply) \<Rightarrow>
     'd nse_state \<Rightarrow> (nat \<times> 'd nse_body) \<times> 'd nse_state" where
  "nse_equity upper symbol_arg now browser upstream st =
     (let symbol = upper (case symbol_arg of None \<Rightarrow> [] | Some s \<Rightarrow> s) in
      if symbol = [] then ((400, ErrorBody ''Symbol is required''), st)
      else
        (case get_nse_cookies now browser st of
           (Inl msg, st1) \<Rightarrow> ((500, ErrorBody msg), st1)
         | (Inr cookie_header, st1) \<Rightarrow>
             (let url = ''https://www.nseindia.com/api/option-chain-equities?symbol='' @ symbol;
                  st2 = st1\<lparr>fetched := fetched st1 @ [url]\<rparr>
              in case fetch_json True (upstream url cookie_header) of
                   Inr d \<Rightarrow> ((200, Document d), st2)
                 | Inl msg \<Rightarrow> ((500, ErrorBody msg), st2))))"

section \<open>Example inputs\<close>

text \<open>
  Concrete states and requests on which the theorems below are instantiated. \<open>H0\<close> stands
  in for SHA-256 there: any function of the content will do, since the program only
  compares digests.
\<close>

definition H0 :: "bytes \<Rightarrow> string" where
  "H0 c = ''h:'' @ c"

definition s_empty :: state where
  "s_empty = \<lparr>files = [], video_hashes = Map.empty, active_streams = Map.empty,
     procs = (\<lambda>p. \<lparr>running = False, exits_on_term = True\<rparr>), next_pid = 0, timers = []\<rparr>"

text \<open>One stored upload, not yet hashed.\<close>

definition s_fresh :: state where
  "s_fresh = s_empty\<lparr>files := [(''uploads/a_v0.mp4'', ''AAAAAAAAAA'')]\<rparr>"

text \<open>The same ten bytes stored twice; the first upload has been hashed and indexed.\<close>

definition s_dup :: state where
  "s_dup = s_empty\<lparr>
     files := [(''uploads/a_v0.mp4'', ''AAAAAAAAAA''), (''uploads/b_v1.mp4'', ''AAAAAAAAAA'')],
     video_hashes := [H0 ''AAAAAAAAAA'' \<mapsto> ''v0'']\<rparr>"


text \<open>A live session whose child does not exit within five seconds of SIGTERM.\<close>

definition s_live :: state where
  "s_live = s_fresh\<lparr>
     active_streams := [''v0'' \<mapsto>
       \<lparr>process = Some 0, status = ''live'', task_id = ''t'', start_time = ''now'', error = None\<rparr>],
     procs := (\<lambda>p. \<lparr>running = (p = 0), exits_on_term = False\<rparr>),
     next_pid := 1\<rparr>"

definition req_A :: "string \<rightharpoonup> string \<times> bytes" where
  "req_A = [''video'' \<mapsto> (''clip.MP4'', ''AAAAAAAAAA'')]"

text \<open>The JSON body of a start request for the platform \<open>p\<close>.\<close>

definition data_of :: "string \<Rightarrow> (string \<rightharpoonup> string)" where
  "data_of p = [''streamKey'' \<mapsto> ''k'', ''loops'' \<mapsto> ''1'', ''taskId'' \<mapsto> ''t'', ''platform'' \<mapsto> p]"

text \<open>
  A proxy whose index cache holds a document for NIFTY fetched at time 100; an upstream
  service that cannot be reached; and one that answers every request with status 503 and
  a JSON body.
\<close>

definition nse0 :: "string nse_state" where
  "nse0 = \<lparr>index_cache = [''NIFTY'' \<mapsto> \<lparr>data = ''doc'', timestamp = 100\<rparr>],
           equity_cache = Map.empty, equity_cookie_cache = (None, 0), fetched = []\<rparr>"

definition upstream_down :: "string \<Rightarrow> string reply" where
  "upstream_down url = Unreachable ''timeout''"

definition upstream_503 :: "string \<Rightarrow> string reply" where
  "upstream_503 url = Reply 503 ''503 Server Error'' (Inr ''{\"error\": \"unavailable\"}'')"





text \<open>The status that the registry shows for a video id, if it has an entry.\<close>

definition status_of :: "state \<Rightarrow> string \<Rightarrow> string option" where
  "status_of st video_id = map_option status (active_streams st video_id)"

text \<open>
  A single session whose child exits during the five-second sleep: the thread has
  registered the session (\<open>t_started\<close>), the child exits and a status query arrives
  (\<open>s_reconciled\<close>), then the sleep ends and the thread runs its next step (\<open>t_settled\<close>).
\<close>

definition t_started :: "pc \<times> state" where
  "t_started =
     run_ffmpeg_stream ''uploads/a_v0.mp4'' ''k'' ''1'' ''v0'' ''t'' ''youtube'' (Inr True) ''now'' [] Start s_fresh"

definition s_reconciled :: state where
  "s_reconciled = snd (get_stream_status ''v0'' (child_exits 0 (snd t_started)))"

definition t_settled :: "pc \<times> state" where
  "t_settled =
     run_ffmpeg_stream ''uploads/a_v0.mp4'' ''k'' ''1'' ''v0'' ''t'' ''youtube'' (Inr True) ''now'' []
       (fst t_started) s_reconciled"

text \<open>
  Two stored uploads of the same ten bytes, neither hashed yet, and their two
  \<^verbatim>\<open>post_process\<close> threads scheduled so that both evaluate the membership test before
  either runs its branch.
\<close>

definition s_two :: state where
  "s_two = s_empty\<lparr>
     files := [(''uploads/a_v0.mp4'', ''AAAAAAAAAA''), (''uploads/b_v1.mp4'', ''AAAAAAAAAA'')]\<rparr>"

definition interleaved :: "pp_pc \<times> pp_pc \<times> state" where
  "interleaved =
     run_pair H0 (''v0'', ''uploads/a_v0.mp4'') (''v1'', ''uploads/b_v1.mp4'')
       [False, True, False, True] (Hashing, Hashing, s_two)"

section \<open>Properties\<close>

text \<open>
  Claim C8. For each of the four recognised platforms the destination URL is the fixed
  template of that platform followed by the caller's stream key
  (\<^verbatim>\<open>rtmp://a.rtmp.youtube.com/live2/\<close> for youtube,
  \<^verbatim>\<open>rtmps://live-api-s.facebook.com:443/rtmp/\<close> for facebook, the Instagram ingest host
  \<^verbatim>\<open>rtmps://edgetee-upload-del2-1.xx.fbcdn.net:443/rtmp/\<close> for instagram and
  \<^verbatim>\<open>rtmps://live.twitter.com/\<close> for twitter), and the command built for the child process
  ends with exactly that URL in double quotes.
\<close>

theorem platform_destination_urls:
  "output_url ''youtube'' k = Some (''rtmp://a.rtmp.youtube.com/live2/'' @ k) \<and>
   output_url ''facebook'' k = Some (''rtmps://live-api-s.facebook.com:443/rtmp/'' @ k) \<and>
   output_url ''instagram'' k = Some (''rtmps://edgetee-upload-del2-1.xx.fbcdn.net:443/rtmp/'' @ k) \<and>
   output_url ''twitter'' k = Some (''rtmps://live.twitter.com/'' @ k) \<and>
   (\<exists>c. base_cmd v k n ''youtube'' = Some (c @ quoted (''rtmp://a.rtmp.youtube.com/live2/'' @ k))) \<and>
   (\<exists>c. base_cmd v k n ''facebook'' =
      Some (c @ quoted (''rtmps://live-api-s.facebook.com:443/rtmp/'' @ k))) \<and>
   (\<exists>c. base_cmd v k n ''instagram'' =
      Some (c @ quoted (''rtmps://edgetee-upload-del2-1.xx.fbcdn.net:443/rtmp/'' @ k))) \<and>
   (\<exists>c. base_cmd v k n ''twitter'' = Some (c @ quoted (''rtmps://live.twitter.com/'' @ k)))"
proof -
  have cmd: "\<exists>c. base_cmd v k n p = Some (c @ quoted u)"
    if t: "platform_table p k = Some (u, cf, ff)" for p u cf ff
  proof -
    have "base_cmd v k n p =
        Some ((ffmpeg_path @ '' '' @ ffmpeg_input n v @ '' '' @ cf @ '' '' @ ff) @ quoted u)"
      by (simp add: base_cmd_def t quoted_def)
    then show ?thesis by blast
  qed
  have urls: "output_url ''youtube'' k = Some (''rtmp://a.rtmp.youtube.com/live2/'' @ k)"
    "output_url ''facebook'' k = Some (''rtmps://live-api-s.facebook.com:443/rtmp/'' @ k)"
    "output_url ''instagram'' k =
       Some (''rtmps://edgetee-upload-del2-1.xx.fbcdn.net:443/rtmp/'' @ k)"
    "output_url ''twitter'' k = Some (''rtmps://live.twitter.com/'' @ k)"
    by (simp_all add: output_url_def platform_table_def)
  have y: "\<exists>c. base_cmd v k n ''youtube'' =
      Some (c @ quoted (''rtmp://a.rtmp.youtube.com/live2/'' @ k))"
    by (rule cmd) (simp add: platform_table_def)
  have f: "\<exists>c. base_cmd v k n ''facebook'' =
      Some (c @ quoted (''rtmps://live-api-s.facebook.com:443/rtmp/'' @ k))"
    by (rule cmd) (simp add: platform_table_def)
  have i: "\<exists>c. base_cmd v k n ''instagram'' =
      Some (c @ quoted (''rtmps://edgetee-upload-del2-1.xx.fbcdn.net:443/rtmp/'' @ k))"
    by (rule cmd) (simp add: platform_table_def)
  have t: "\<exists>c. base_cmd v k n ''twitter'' = Some (c @ quoted (''rtmps://live.twitter.com/'' @ k))"
    by (rule cmd) (simp add: platform_table_def)
  from urls y f i t show ?thesis by blast
qed

subsection \<open>The first step of the supervising thread\<close>

lemma start_step_spawn:
  assumes "platform_table platform stream_key \<noteq> None"
  shows "run_ffmpeg_stream video_path stream_key loops video_id tid platform (Inr e) now raises Start st =
     (Sleeping (next_pid st),
      st\<lparr>procs := (procs st)(next_pid st := \<lparr>running = True, exits_on_term = e\<rparr>),
         next_pid := Suc (next_pid st),
         active_streams := (active_streams st)(video_id \<mapsto>
           \<lparr>process = Some (next_pid st), status = ''starting'', task_id = tid,
            start_time = now, error = None\<rparr>)\<rparr>)"
  using assms by (auto simp: run_ffmpeg_stream_def base_cmd_def Let_def split: option.splits)

lemma platform_table_Some:
  "platform \<in> {''youtube'', ''facebook'', ''instagram'', ''twitter''} \<Longrightarrow>
     platform_table platform k \<noteq> None"
  by (auto simp: platform_table_def)

subsection \<open>Deduplication and retention\<close>




text \<open>
  Claim C1. When the content of the stored upload hashes to a value that the Dedup Index
  already holds, the background step \<^verbatim>\<open>post_process\<close> deletes the file just written, arms
  no timer, and leaves the index as it was: the hash still maps to the earlier asset.
\<close>

theorem post_process_duplicate:
  assumes "map_of (files st) save_path = Some c" and "video_hashes st (H c) = Some earlier"
  shows "\<not> os_path_exists (files (post_process H video_id save_path st)) save_path \<and>
         timers (post_process H video_id save_path st) = timers st \<and>
         video_hashes (post_process H video_id save_path st) = video_hashes st \<and>
         video_hashes (post_process H video_id save_path st) (H c) = Some earlier"
  using assms
  by (simp add: post_process_def pp_step_def compute_file_hash_def os_remove_def
      os_path_exists_def delete_conv')

theorem post_process_duplicate_witness:
  "map_of (files s_dup) ''uploads/b_v1.mp4'' = Some ''AAAAAAAAAA'' \<and>
   video_hashes s_dup (H0 ''AAAAAAAAAA'') = Some ''v0'' \<and>
   \<not> os_path_exists (files (post_process H0 ''v1'' ''uploads/b_v1.mp4'' s_dup)) ''uploads/b_v1.mp4'' \<and>
   timers (post_process H0 ''v1'' ''uploads/b_v1.mp4'' s_dup) = timers s_dup \<and>
   video_hashes (post_process H0 ''v1'' ''uploads/b_v1.mp4'' s_dup) (H0 ''AAAAAAAAAA'') = Some ''v0''"
proof -
  have f: "map_of (files s_dup) ''uploads/b_v1.mp4'' = Some ''AAAAAAAAAA''"
    by (simp add: s_dup_def s_empty_def)
  have h: "video_hashes s_dup (H0 ''AAAAAAAAAA'') = Some ''v0''"
    by (simp add: s_dup_def s_empty_def)
  from post_process_duplicate [where st = s_dup and save_path = "''uploads/b_v1.mp4''"
      and H = H0 and c = "''AAAAAAAAAA''" and earlier = "''v0''" and video_id = "''v1''", OF f h] f h
  show ?thesis by simp
qed





subsection \<open>The upload response\<close>

lemma allowed_clip: "allowed_file ascii_lower ''clip.MP4''"
  by code_simp

text \<open>
  Claim C10 as stated fails for main.py: an upload of bytes whose hash is already indexed
  is answered 200 with the message \<^verbatim>\<open>Duplicate video\<close> and the id of the earlier asset, and
  that answer has no duration field.
\<close>

theorem duplicate_upload_has_no_duration:
  "status_code (fst (upload_video_main H0 ascii_lower ''b'' req_A ''v1'' None s_dup)) = 200 \<and>
   map_of (body (fst (upload_video_main H0 ascii_lower ''b'' req_A ''v1'' None s_dup))) ''message'' =
     Some (JStr ''Duplicate video'') \<and>
   map_of (body (fst (upload_video_main H0 ascii_lower ''b'' req_A ''v1'' None s_dup))) ''videoId'' =
     Some (JStr ''v0'') \<and>
   map_of (body (fst (upload_video_main H0 ascii_lower ''b'' req_A ''v1'' None s_dup))) ''duration'' =
     None"
  by (simp add: upload_video_main_def req_A_def allowed_clip s_dup_def s_empty_def Let_def)

text \<open>
  Claim C10, amended. Every response of new.py's \<^verbatim>\<open>upload_video\<close> with status 200 carries
  the duration 120, whatever bytes were uploaded. In main.py the response with the message
  \<^verbatim>\<open>File uploaded successfully\<close> has status 200 and the duration 120; every response with
  status 200 is either that one or the \<^verbatim>\<open>Duplicate video\<close> answer, which has no duration
  field and is given only when the hash of the uploaded bytes is already indexed.
\<close>

theorem upload_duration_constant:
  "(status_code (fst (upload_video lower email request_files fresh io_error st)) = 200 \<longrightarrow>
      map_of (body (fst (upload_video lower email request_files fresh io_error st))) ''duration'' =
        Some (JNum 120)) \<and>
   (map_of (body (fst (upload_video_main H lower email request_files fresh io_error st))) ''message'' =
        Some (JStr ''File uploaded successfully'') \<longrightarrow>
      status_code (fst (upload_video_main H lower email request_files fresh io_error st)) = 200 \<and>
      map_of (body (fst (upload_video_main H lower email request_files fresh io_error st))) ''duration'' =
        Some (JNum 120)) \<and>
   (status_code (fst (upload_video_main H lower email request_files fresh io_error st)) = 200 \<longrightarrow>
      map_of (body (fst (upload_video_main H lower email request_files fresh io_error st))) ''message'' =
        Some (JStr ''File uploaded successfully'') \<and>
      map_of (body (fst (upload_video_main H lower email request_files fresh io_error st))) ''duration'' =
        Some (JNum 120)
      \<or>
      map_of (body (fst (upload_video_main H lower email request_files fresh io_error st))) ''message'' =
        Some (JStr ''Duplicate video'') \<and>
      map_of (body (fst (upload_video_main H lower email request_files fresh io_error st))) ''duration'' =
        None \<and>
      (\<exists>file_name content. request_files ''video'' = Some (file_name, content) \<and>
         video_hashes st (H content) \<noteq> None))"
  by (simp add: upload_video_def upload_video_main_def error_response_def Let_def
      split: option.splits prod.splits)

theorem upload_duration_constant_witness:
  "status_code (fst (upload_video ascii_lower ''a'' req_A ''v0'' None s_empty)) = 200 \<and>
   map_of (body (fst (upload_video ascii_lower ''a'' req_A ''v0'' None s_empty))) ''duration'' =
     Some (JNum 120) \<and>
   map_of (body (fst (upload_video_main H0 ascii_lower ''a'' req_A ''v0'' None s_empty))) ''message'' =
     Some (JStr ''File uploaded successfully'') \<and>
   status_code (fst (upload_video_main H0 ascii_lower ''a'' req_A ''v0'' None s_empty)) = 200 \<and>
   map_of (body (fst (upload_video_main H0 ascii_lower ''a'' req_A ''v0'' None s_empty))) ''duration'' =
     Some (JNum 120)"
proof -
  have a: "status_code (fst (upload_video ascii_lower ''a'' req_A ''v0'' None s_empty)) = 200"
    by (simp add: upload_video_def req_A_def allowed_clip Let_def)
  have b: "map_of (body (fst (upload_video_main H0 ascii_lower ''a'' req_A ''v0'' None s_empty)))
      ''message'' = Some (JStr ''File uploaded successfully'')"
    by (simp add: upload_video_main_def req_A_def allowed_clip s_empty_def Let_def)
  note r = upload_duration_constant [where lower = ascii_lower and email = "''a''"
      and request_files = req_A and fresh = "''v0''" and io_error = None and st = s_empty
      and H = H0]
  note n = r [THEN conjunct1, THEN mp, OF a]
  note m = r [THEN conjunct2, THEN conjunct1, THEN mp, OF b]
  show ?thesis
    using a n b m [THEN conjunct1] m [THEN conjunct2] by (intro conjI)
qed

subsection \<open>The market-data proxy\<close>

lemma fetch_json_checked:
  "fetch_json True r = Inr d \<longleftrightarrow>
     (\<exists>code err. r = Reply code err (Inr d) \<and> \<not> (400 \<le> code \<and> code < 600))"
  by (cases r) (auto simp: fetch_json_def)

lemma fetch_json_unchecked:
  "fetch_json False r = Inr d \<longleftrightarrow> (\<exists>code err. r = Reply code err (Inr d))"
  by (cases r) (auto simp: fetch_json_def)

text \<open>
  What both versions of \<^verbatim>\<open>nse_index\<close> do: an entry younger than 30 seconds is answered
  from the cache with the state unchanged, so without an upstream request; and when there
  is no such entry and the request of the \<^verbatim>\<open>try\<close> block raises \<open>msg\<close>, the answer is the
  error body with status 500 and the cache is unchanged.
\<close>

lemma nse_index_cache:
  "(index_cache st (upper (case symbol_arg of None \<Rightarrow> ''NIFTY'' | Some s \<Rightarrow> s)) = Some e \<and>
    now - timestamp e < 30 \<longrightarrow>
      nse_index rfs upper symbol_arg now upstream st = ((200, Document (data e)), st)) \<and>
   ((\<forall>e. index_cache st (upper (case symbol_arg of None \<Rightarrow> ''NIFTY'' | Some s \<Rightarrow> s)) = Some e \<longrightarrow>
         \<not> now - timestamp e < 30) \<and>
    fetch_json rfs (upstream (''https://www.nseindia.com/api/option-chain-indices?symbol='' @
        upper (case symbol_arg of None \<Rightarrow> ''NIFTY'' | Some s \<Rightarrow> s))) = Inl msg \<longrightarrow>
      fst (nse_index rfs upper symbol_arg now upstream st) = (500, ErrorBody msg) \<and>
      index_cache (snd (nse_index rfs upper symbol_arg now upstream st)) = index_cache st)"
proof -
  define symbol where "symbol = upper (case symbol_arg of None \<Rightarrow> ''NIFTY'' | Some s \<Rightarrow> s)"
  define url where "url = ''https://www.nseindia.com/api/option-chain-indices?symbol='' @ symbol"
  define hit where "hit = (case index_cache st symbol of None \<Rightarrow> False
      | Some e \<Rightarrow> now - timestamp e < 30)"
  have unfold: "nse_index rfs upper symbol_arg now upstream st =
      (if hit then ((200, Document (data (the (index_cache st symbol)))), st)
       else (case fetch_json rfs (upstream url) of
           Inr d \<Rightarrow> ((200, Document d),
              st\<lparr>fetched := fetched st @ [url],
                 index_cache := (index_cache st)(symbol \<mapsto> \<lparr>data = d, timestamp = now\<rparr>)\<rparr>)
         | Inl msg \<Rightarrow> ((500, ErrorBody msg), st\<lparr>fetched := fetched st @ [url]\<rparr>)))"
    unfolding nse_index_def symbol_def [symmetric] Let_def hit_def [symmetric]
    by (simp add: url_def split: sum.splits)
  have served: "nse_index rfs upper symbol_arg now upstream st = ((200, Document (data e)), st)"
    if "index_cache st symbol = Some e" "now - timestamp e < 30"
    using that by (simp add: unfold hit_def)
  have failed: "fst (nse_index rfs upper symbol_arg now upstream st) = (500, ErrorBody msg) \<and>
      index_cache (snd (nse_index rfs upper symbol_arg now upstream st)) = index_cache st"
    if "fetch_json rfs (upstream url) = Inl msg"
      "\<forall>e. index_cache st symbol = Some e \<longrightarrow> \<not> now - timestamp e < 30"
  proof -
    from that(2) have "\<not> hit" by (simp add: hit_def split: option.splits)
    with that(1) show ?thesis by (simp add: unfold)
  qed
  from served failed show ?thesis
    unfolding symbol_def url_def by blast
qed

text \<open>\<^verbatim>\<open>nse_equity\<close> of Nse.py does the same over its own cache.\<close>

lemma nse_equity_Nse_cache:
  "(upper (case symbol_arg of None \<Rightarrow> [] | Some s \<Rightarrow> s) \<noteq> [] \<and>
    equity_cache st (upper (case symbol_arg of None \<Rightarrow> [] | Some s \<Rightarrow> s)) = Some e \<and>
    now - timestamp e < 30 \<longrightarrow>
      nse_equity_Nse upper symbol_arg now upstream st = ((200, Document (data e)), st)) \<and>
   (upper (case symbol_arg of None \<Rightarrow> [] | Some s \<Rightarrow> s) \<noteq> [] \<and>
    (\<forall>e. equity_cache st (upper (case symbol_arg of None \<Rightarrow> [] | Some s \<Rightarrow> s)) = Some e \<longrightarrow>
         \<not> now - timestamp e < 30) \<and>
    fetch_json False (upstream (''https://www.nseindia.com/api/option-chain-equities?symbol='' @
        upper (case symbol_arg of None \<Rightarrow> [] | Some s \<Rightarrow> s))) = Inl msg \<longrightarrow>
      fst (nse_equity_Nse upper symbol_arg now upstream st) = (500, ErrorBody msg) \<and>
      equity_cache (snd (nse_equity_Nse upper symbol_arg now upstream st)) = equity_cache st)"
proof -
  define symbol where "symbol = upper (case symbol_arg of None \<Rightarrow> [] | Some s \<Rightarrow> s)"
  define url where "url = ''https://www.nseindia.com/api/option-chain-equities?symbol='' @ symbol"
  define hit where "hit = (case equity_cache st symbol of None \<Rightarrow> False
      | Some e \<Rightarrow> now - timestamp e < 30)"
  have unfold: "nse_equity_Nse upper symbol_arg now upstream st =
      (if symbol = [] then ((400, ErrorBody ''Symbol is required''), st)
       else if hit then ((200, Document (data (the (equity_cache st symbol)))), st)
       else (case fetch_json False (upstream url) of
           Inr d \<Rightarrow> ((200, Document d),
              st\<lparr>fetched := fetched st @ [url],
                 equity_cache := (equity_cache st)(symbol \<mapsto> \<lparr>data = d, timestamp = now\<rparr>)\<rparr>)
         | Inl msg \<Rightarrow> ((500, ErrorBody msg), st\<lparr>fetched := fetched st @ [url]\<rparr>)))"
    unfolding nse_equity_Nse_def symbol_def [symmetric] Let_def hit_def [symmetric]
    by (simp add: url_def split: sum.splits)
  have served: "nse_equity_Nse upper symbol_arg now upstream st = ((200, Document (data e)), st)"
    if "symbol \<noteq> []" "equity_cache st symbol = Some e" "now - timestamp e < 30"
    using that by (simp add: unfold hit_def)
  have failed: "fst (nse_equity_Nse upper symbol_arg now upstream st) = (500, ErrorBody msg) \<and>
      equity_cache (snd (nse_equity_Nse upper symbol_arg now upstream st)) = equity_cache st"
    if "symbol \<noteq> []" "fetch_json False (upstream url) = Inl msg"
      "\<forall>e. equity_cache st symbol = Some e \<longrightarrow> \<not> now - timestamp e < 30"
  proof -
    from that(3) have "\<not> hit" by (simp add: hit_def split: option.splits)
    with that(1,2) show ?thesis by (simp add: unfold)
  qed
  from served failed show ?thesis
    unfolding symbol_def url_def by blast
qed

text \<open>
  \<^verbatim>\<open>nse_equity\<close> of new.py: it never touches the two document caches, and when the browser
  session or the request raises, it answers with the error body and status 500.
\<close>

lemma nse_equity_failure:
  "index_cache (snd (nse_equity upper symbol_arg now browser upstream st)) = index_cache st \<and>
   equity_cache (snd (nse_equity upper symbol_arg now browser upstream st)) = equity_cache st \<and>
   fst (fst (nse_equity upper symbol_arg now browser upstream st)) \<in> {200, 400, 500} \<and>
   (fst (fst (nse_equity upper symbol_arg now browser upstream st)) = 200 \<longrightarrow>
      (\<exists>url cookie code err d. upstream url cookie = Reply code err (Inr d) \<and>
         \<not> (400 \<le> code \<and> code < 600) \<and>
         snd (fst (nse_equity upper symbol_arg now browser upstream st)) = Document d))"
proof -
  obtain c st1 where g: "get_nse_cookies now browser st = (c, st1)"
    by (cases "get_nse_cookies now browser st")
  have k: "index_cache st1 = index_cache st \<and> equity_cache st1 = equity_cache st"
    using g by (auto simp: get_nse_cookies_def split: prod.splits if_splits sum.splits)
  show ?thesis
    using k
    by (auto simp: nse_equity_def Let_def g fetch_json_checked split: sum.splits)
qed

lemma ascii_upper_nifty: "ascii_upper ''nifty'' = ''NIFTY''"
  by code_simp

lemma ascii_upper_tcs: "ascii_upper ''tcs'' = ''TCS''"
  by code_simp

text \<open>
  Claim C9, on Nse.py: at time 130 the entry for NIFTY, fetched at time 100, is stale, and
  the upstream service answers with status 503 and a JSON body. \<^verbatim>\<open>nse_index\<close> of Nse.py
  returns that body with status 200 and writes it over the cache entry, and \<^verbatim>\<open>nse_equity\<close>
  of Nse.py does the same for its own cache; \<^verbatim>\<open>nse_index\<close> of new.py, which calls
  \<^verbatim>\<open>raise_for_status()\<close>, answers the same request with the error body and status 500 and
  leaves the cache as it was.
\<close>

theorem nse_index_caches_upstream_error:
  "fst (nse_index False ascii_upper (Some ''nifty'') 130 upstream_503 nse0) =
     (200, Document ''{\"error\": \"unavailable\"}'') \<and>
   index_cache (snd (nse_index False ascii_upper (Some ''nifty'') 130 upstream_503 nse0)) ''NIFTY'' =
     Some \<lparr>data = ''{\"error\": \"unavailable\"}'', timestamp = 130\<rparr> \<and>
   fst (nse_equity_Nse ascii_upper (Some ''tcs'') 130 upstream_503 nse0) =
     (200, Document ''{\"error\": \"unavailable\"}'') \<and>
   equity_cache (snd (nse_equity_Nse ascii_upper (Some ''tcs'') 130 upstream_503 nse0)) ''TCS'' =
     Some \<lparr>data = ''{\"error\": \"unavailable\"}'', timestamp = 130\<rparr> \<and>
   fst (nse_index True ascii_upper (Some ''nifty'') 130 upstream_503 nse0) =
     (500, ErrorBody ''503 Server Error'') \<and>
   index_cache (snd (nse_index True ascii_upper (Some ''nifty'') 130 upstream_503 nse0)) =
     index_cache nse0"
proof -
  have a: "nse_index False ascii_upper (Some ''nifty'') 130 upstream_503 nse0 =
      ((200, Document ''{\"error\": \"unavailable\"}''),
       nse0\<lparr>fetched := [''https://www.nseindia.com/api/option-chain-indices?symbol=NIFTY''],
            index_cache := (index_cache nse0)(''NIFTY'' \<mapsto>
              \<lparr>data = ''{\"error\": \"unavailable\"}'', timestamp = 130\<rparr>)\<rparr>)"
    by (simp add: nse_index_def ascii_upper_nifty nse0_def upstream_503_def fetch_json_def Let_def)
  have b: "nse_equity_Nse ascii_upper (Some ''tcs'') 130 upstream_503 nse0 =
      ((200, Document ''{\"error\": \"unavailable\"}''),
       nse0\<lparr>fetched := [''https://www.nseindia.com/api/option-chain-equities?symbol=TCS''],
            equity_cache := (equity_cache nse0)(''TCS'' \<mapsto>
              \<lparr>data = ''{\"error\": \"unavailable\"}'', timestamp = 130\<rparr>)\<rparr>)"
    by (simp add: nse_equity_Nse_def ascii_upper_tcs nse0_def upstream_503_def fetch_json_def Let_def)
  have c: "nse_index True ascii_upper (Some ''nifty'') 130 upstream_503 nse0 =
      ((500, ErrorBody ''503 Server Error''),
       nse0\<lparr>fetched := [''https://www.nseindia.com/api/option-chain-indices?symbol=NIFTY'']\<rparr>)"
    by (simp add: nse_index_def ascii_upper_nifty nse0_def upstream_503_def fetch_json_def Let_def)
  show ?thesis
    unfolding a b c by simp
qed

subsection \<open>Stopping a session\<close>

text \<open>The force-kill of \<^verbatim>\<open>cleanup_process\<close> is never reached: the function is \<open>terminate\<close>.\<close>

lemma cleanup_process_is_terminate:
  "cleanup_process ps h =
     (case h of None \<Rightarrow> ps | Some p \<Rightarrow> if running (ps p) then terminate ps p else ps)"
  by (simp add: cleanup_process_def wait_timeout_def Let_def terminate_def split: option.splits)

lemma cleanup_process_running:
  "running (cleanup_process ps (Some p) p) \<longleftrightarrow> running (ps p) \<and> \<not> exits_on_term (ps p)"
  by (simp add: cleanup_process_is_terminate terminate_def)

text \<open>
  What \<^verbatim>\<open>stop_stream\<close> does keep of claim C6: an unknown id is answered 404 with the state
  unchanged; a known id is answered 200, its entry leaves the registry at once and a
  status query that follows is answered 404; the child is left running exactly when it
  was running and does not exit within the five seconds after SIGTERM.
\<close>

lemma stop_stream_effects:
  "(active_streams st video_id = None \<longrightarrow>
      stop_stream video_id st = (error_response 404 ''Stream not found'', st)) \<and>
   (active_streams st video_id = Some e \<longrightarrow>
      status_code (fst (stop_stream video_id st)) = 200 \<and>
      active_streams (snd (stop_stream video_id st)) video_id = None \<and>
      fst (get_stream_status video_id (snd (stop_stream video_id st))) =
        Inl (error_response 404 ''Stream not found'') \<and>
      (\<forall>p. process e = Some p \<longrightarrow>
         (running (procs (snd (stop_stream video_id st)) p) \<longleftrightarrow>
          running (procs st p) \<and> \<not> exits_on_term (procs st p))))"
  by (auto simp: stop_stream_def get_stream_status_def Let_def cleanup_process_running
      split: option.splits)

text \<open>
  Claim C6, at a live session whose child does not exit within five seconds of SIGTERM:
  \<^verbatim>\<open>stop_stream\<close> answers 200 and removes the session, and the child is still running
  afterwards. \<^verbatim>\<open>process.wait(timeout=5)\<close> raises \<^verbatim>\<open>TimeoutExpired\<close>, the handler of
  \<^verbatim>\<open>cleanup_process\<close> swallows it, and \<^verbatim>\<open>process.kill()\<close> is skipped.
\<close>

theorem stop_stream_leaves_child_running:
  "map_option process (active_streams s_live ''v0'') = Some (Some 0) \<and>
   running (procs s_live 0) \<and>
   status_code (fst (stop_stream ''v0'' s_live)) = 200 \<and>
   active_streams (snd (stop_stream ''v0'' s_live)) ''v0'' = None \<and>
   running (procs (snd (stop_stream ''v0'' s_live)) 0)"
  by (simp add: stop_stream_def s_live_def cleanup_process_def terminate_def wait_timeout_def Let_def)

subsection \<open>Starting a session\<close>

lemma platform_table_None:
  "platform \<notin> {''youtube'', ''facebook'', ''instagram'', ''twitter''} \<Longrightarrow>
     platform_table platform k = None"
  by (simp add: platform_table_def)

text \<open>
  Claim C4 as stated fails: a start request for the platform \<^verbatim>\<open>mastodon\<close>, with all four
  fields and a stored file that matches the id, is answered 200 and its thread is started.
\<close>

theorem unknown_platform_accepted:
  "''mastodon'' \<notin> {''youtube'', ''facebook'', ''instagram'', ''twitter''} \<and>
   start_stream ''v0'' (data_of ''mastodon'') s_fresh =
     (\<lparr>status_code = 200,
       body = [(''message'', JStr ''Stream starting''), (''videoId'', JStr ''v0'')]\<rparr>,
      Some (''uploads/a_v0.mp4'', ''k'', ''1'', ''v0'', ''t'', ''mastodon''))"
  by (simp add: start_stream_def data_of_def s_fresh_def s_empty_def os_listdir_def UPLOAD_FOLDER_def
      os_path_join_def)

text \<open>
  Claim C4, amended. For a platform outside the four recognised ones the thread of
  \<^verbatim>\<open>run_ffmpeg_stream\<close> ends in its first step without changing the state: no child is
  spawned and no session is registered. The response of \<^verbatim>\<open>start_stream\<close> does not depend
  on the platform value: it is the response that the same request gets for \<^verbatim>\<open>youtube\<close>,
  one of 200, 400 and 404; it is 400 exactly when one of the other three fields is
  missing, and 404 exactly when none is missing and no stored file name contains the id.
\<close>

theorem unknown_platform_no_spawn:
  "platform \<notin> {''youtube'', ''facebook'', ''instagram'', ''twitter''} \<longrightarrow>
     run_ffmpeg_stream video_path stream_key loops video_id tid platform popen now raises Start st =
       (Dead (Some UnboundLocalError), st) \<and>
     fst (start_stream video_id (req(''platform'' \<mapsto> platform)) st) =
       fst (start_stream video_id (req(''platform'' \<mapsto> ''youtube'')) st) \<and>
     status_code (fst (start_stream video_id (req(''platform'' \<mapsto> platform)) st)) \<in> {200, 400, 404} \<and>
     (status_code (fst (start_stream video_id (req(''platform'' \<mapsto> platform)) st)) = 400 \<longleftrightarrow>
        req ''streamKey'' = None \<or> req ''loops'' = None \<or> req ''taskId'' = None) \<and>
     (status_code (fst (start_stream video_id (req(''platform'' \<mapsto> platform)) st)) = 404 \<longleftrightarrow>
        req ''streamKey'' \<noteq> None \<and> req ''loops'' \<noteq> None \<and> req ''taskId'' \<noteq> None \<and>
        filter (in_str video_id) (os_listdir (files st) UPLOAD_FOLDER) = [])"
  by (simp add: run_ffmpeg_stream_def base_cmd_def platform_table_None start_stream_def Let_def
      error_response_def)

theorem unknown_platform_no_spawn_witness:
  "''mastodon'' \<notin> {''youtube'', ''facebook'', ''instagram'', ''twitter''} \<and>
   run_ffmpeg_stream ''uploads/a_v0.mp4'' ''k'' ''1'' ''v0'' ''t'' ''mastodon'' (Inr True) ''now'' [] Start s_fresh =
     (Dead (Some UnboundLocalError), s_fresh) \<and>
   fst (start_stream ''v0'' ((data_of ''x'')(''platform'' \<mapsto> ''mastodon'')) s_fresh) =
     fst (start_stream ''v0'' ((data_of ''x'')(''platform'' \<mapsto> ''youtube'')) s_fresh)"
proof -
  have m: "''mastodon'' \<notin> {''youtube'', ''facebook'', ''instagram'', ''twitter''}"
    by simp
  note r = unknown_platform_no_spawn [where platform = "''mastodon''" and st = s_fresh
      and video_path = "''uploads/a_v0.mp4''" and stream_key = "''k''" and loops = "''1''"
      and video_id = "''v0''" and tid = "''t''" and popen = "Inr True" and now = "''now''"
      and raises = "[]" and req = "data_of ''x''", THEN mp, OF m]
  show ?thesis
    using m r [THEN conjunct1] r [THEN conjunct2, THEN conjunct1] by (intro conjI)
qed

text \<open>
  Claim C5 as stated fails: with a live session registered for \<^verbatim>\<open>v0\<close> and its child
  running, a second start request for \<^verbatim>\<open>v0\<close> is answered 200, and its thread spawns a
  second child (handle 1) and puts it in the registry entry; the first child (handle 0)
  keeps running.
\<close>

theorem second_start_spawns:
  "map_option status (active_streams s_live ''v0'') = Some ''live'' \<and>
   start_stream ''v0'' (data_of ''youtube'') s_live =
     (\<lparr>status_code = 200,
       body = [(''message'', JStr ''Stream starting''), (''videoId'', JStr ''v0'')]\<rparr>,
      Some (''uploads/a_v0.mp4'', ''k'', ''1'', ''v0'', ''t'', ''youtube'')) \<and>
   fst (run_ffmpeg_stream ''uploads/a_v0.mp4'' ''k'' ''1'' ''v0'' ''t'' ''youtube'' (Inr True) ''now'' [] Start s_live)
     = Sleeping 1 \<and>
   running (procs (snd (run_ffmpeg_stream ''uploads/a_v0.mp4'' ''k'' ''1'' ''v0'' ''t'' ''youtube'' (Inr True)
     ''now'' [] Start s_live)) 0) \<and>
   running (procs (snd (run_ffmpeg_stream ''uploads/a_v0.mp4'' ''k'' ''1'' ''v0'' ''t'' ''youtube'' (Inr True)
     ''now'' [] Start s_live)) 1) \<and>
   map_option process (active_streams (snd (run_ffmpeg_stream ''uploads/a_v0.mp4'' ''k'' ''1'' ''v0'' ''t''
     ''youtube'' (Inr True) ''now'' [] Start s_live)) ''v0'') = Some (Some 1)"
proof -
  have a: "map_option status (active_streams s_live ''v0'') = Some ''live''"
    by (simp add: s_live_def)
  have b: "start_stream ''v0'' (data_of ''youtube'') s_live =
     (\<lparr>status_code = 200,
       body = [(''message'', JStr ''Stream starting''), (''videoId'', JStr ''v0'')]\<rparr>,
      Some (''uploads/a_v0.mp4'', ''k'', ''1'', ''v0'', ''t'', ''youtube''))"
    by (simp add: start_stream_def data_of_def s_live_def s_fresh_def s_empty_def os_listdir_def
        UPLOAD_FOLDER_def os_path_join_def)
  have t: "platform_table ''youtube'' ''k'' \<noteq> None"
    by (simp add: platform_table_def)
  have c: "run_ffmpeg_stream ''uploads/a_v0.mp4'' ''k'' ''1'' ''v0'' ''t'' ''youtube'' (Inr True) ''now'' [] Start s_live
     = (Sleeping 1,
        s_live\<lparr>procs := (procs s_live)(1 := \<lparr>running = True, exits_on_term = True\<rparr>),
               next_pid := 2,
               active_streams := (active_streams s_live)(''v0'' \<mapsto>
                 \<lparr>process = Some 1, status = ''starting'', task_id = ''t'',
                  start_time = ''now'', error = None\<rparr>)\<rparr>)"
    using t by (auto simp: run_ffmpeg_stream_def base_cmd_def s_live_def Let_def split: option.splits)
  show ?thesis
    unfolding c using a b by (simp add: s_live_def)
qed

text \<open>
  Claim C5, amended. \<^verbatim>\<open>start_stream\<close> never reads the registry: its result is the same
  whatever the registry holds. For a recognised platform the first step of the thread
  spawns a new child, leaves every other child as it was, and replaces the registry by
  itself with the one entry of the video id set to a new \<open>starting\<close> session: the registry
  is a dictionary keyed by video id, so it never holds two sessions for one id.
\<close>

theorem start_ignores_registry:
  "start_stream video_id req (st\<lparr>active_streams := reg\<rparr>) = start_stream video_id req st \<and>
   (platform \<in> {''youtube'', ''facebook'', ''instagram'', ''twitter''} \<longrightarrow>
      fst (run_ffmpeg_stream video_path stream_key loops video_id tid platform (Inr e) now raises Start st) =
        Sleeping (next_pid st) \<and>
      next_pid (snd (run_ffmpeg_stream video_path stream_key loops video_id tid platform (Inr e) now raises
        Start st)) = Suc (next_pid st) \<and>
      running (procs (snd (run_ffmpeg_stream video_path stream_key loops video_id tid platform (Inr e) now
        raises Start st)) (next_pid st)) \<and>
      (\<forall>p. p \<noteq> next_pid st \<longrightarrow>
         procs (snd (run_ffmpeg_stream video_path stream_key loops video_id tid platform (Inr e) now raises
           Start st)) p = procs st p) \<and>
      active_streams (snd (run_ffmpeg_stream video_path stream_key loops video_id tid platform (Inr e) now
        raises Start st)) =
        (active_streams st)(video_id \<mapsto>
           \<lparr>process = Some (next_pid st), status = ''starting'', task_id = tid,
            start_time = now, error = None\<rparr>))"
proof -
  have h: "start_stream video_id req (st\<lparr>active_streams := reg\<rparr>) = start_stream video_id req st"
    by (simp add: start_stream_def)
  show ?thesis
    using h by (simp add: start_step_spawn [OF platform_table_Some])
qed

theorem start_ignores_registry_witness:
  "''youtube'' \<in> {''youtube'', ''facebook'', ''instagram'', ''twitter''} \<and>
   start_stream ''v0'' (data_of ''youtube'') (s_live\<lparr>active_streams := Map.empty\<rparr>) =
     start_stream ''v0'' (data_of ''youtube'') s_live \<and>
   next_pid (snd (run_ffmpeg_stream ''uploads/a_v0.mp4'' ''k'' ''1'' ''v0'' ''t'' ''youtube'' (Inr True) ''now'' []
     Start s_live)) = Suc (next_pid s_live) \<and>
   running (procs (snd (run_ffmpeg_stream ''uploads/a_v0.mp4'' ''k'' ''1'' ''v0'' ''t'' ''youtube'' (Inr True)
     ''now'' [] Start s_live)) (next_pid s_live))"
proof -
  have y: "''youtube'' \<in> {''youtube'', ''facebook'', ''instagram'', ''twitter''}"
    by simp
  note r = start_ignores_registry [where platform = "''youtube''" and st = s_live
      and video_path = "''uploads/a_v0.mp4''" and stream_key = "''k''" and loops = "''1''"
      and video_id = "''v0''" and tid = "''t''" and e = True and now = "''now''"
      and raises = "[]" and req = "data_of ''youtube''" and reg = Map.empty]
  note q = r [THEN conjunct2, THEN mp, OF y]
  show ?thesis
    using y r [THEN conjunct1] q [THEN conjunct2, THEN conjunct1]
      q [THEN conjunct2, THEN conjunct2, THEN conjunct1]
    by (intro conjI)
qed

subsection \<open>The status of a session\<close>

lemma t_started_eq:
  "t_started = (Sleeping 0,
      s_fresh\<lparr>procs := (procs s_fresh)(0 := \<lparr>running = True, exits_on_term = True\<rparr>),
         next_pid := Suc 0,
         active_streams := (active_streams s_fresh)(''v0'' \<mapsto>
           \<lparr>process = Some 0, status = ''starting'', task_id = ''t'',
            start_time = ''now'', error = None\<rparr>)\<rparr>)"
  unfolding t_started_def
  by (subst start_step_spawn) (simp_all add: platform_table_def s_fresh_def s_empty_def)

lemma sleeping_step:
  assumes "active_streams st video_id = Some x"
  shows "run_ffmpeg_stream video_path stream_key loops video_id tid platform popen now raises (Sleeping p) st =
     (Waiting p, st\<lparr>active_streams := (active_streams st)(video_id \<mapsto> x\<lparr>status := ''live''\<rparr>)\<rparr>)"
  using assms by (simp add: run_ffmpeg_stream_def set_status_def)

lemma waiting_step:
  assumes "active_streams st video_id = Some x" and "\<not> running (procs st p)"
  shows "run_ffmpeg_stream video_path stream_key loops video_id tid platform popen now raises (Waiting p) st =
     (Cleanup p None,
      st\<lparr>active_streams := (active_streams st)(video_id \<mapsto> x\<lparr>status := ''completed''\<rparr>)\<rparr>)"
  using assms by (simp add: run_ffmpeg_stream_def set_status_def)

lemma delete_video_registry:
  "active_streams (delete_video attempts raises video_path video_id st) = active_streams st"
proof (induction attempts raises video_path video_id st rule: delete_video.induct)
  case (1 attempts raises video_path video_id st)
  then show ?case
    by (subst delete_video.simps) simp
qed

lemma cleanup_step_registry:
  "active_streams (snd (run_ffmpeg_stream video_path stream_key loops video_id tid platform popen now raises
     (Cleanup p x) st)) = active_streams st"
  by (simp add: run_ffmpeg_stream_def Let_def delete_video_registry)

lemma s_reconciled_status: "status_of s_reconciled ''v0'' = Some ''completed''"
  by (simp add: status_of_def s_reconciled_def t_started_eq get_stream_status_def child_exits_def
      Let_def)

text \<open>
  Claim C3 as stated fails: the thread registers the session as \<open>starting\<close>; the child exits
  during the five-second sleep and a status query reconciles the entry to \<open>completed\<close>;
  when the sleep ends, line 158 (main.py line 167) writes \<open>live\<close> over it.
\<close>

theorem completed_overwritten_by_live:
  "fst t_started = Sleeping 0 \<and>
   map_option status (active_streams (snd t_started) ''v0'') = Some ''starting'' \<and>
   map_option status (active_streams s_reconciled ''v0'') = Some ''completed'' \<and>
   map_option status (active_streams (snd t_settled) ''v0'') = Some ''live''"
proof -
  have a: "fst t_started = Sleeping 0"
    by (simp add: t_started_eq)
  have b: "map_option status (active_streams (snd t_started) ''v0'') = Some ''starting''"
    by (simp add: t_started_eq)
  have c: "map_option status (active_streams s_reconciled ''v0'') = Some ''completed''"
    by (simp add: s_reconciled_def t_started_eq get_stream_status_def child_exits_def Let_def)
  have d: "map_option status (active_streams (snd t_settled) ''v0'') = Some ''live''"
    using c
    by (auto simp: t_settled_def a run_ffmpeg_stream_def set_status_def split: option.splits)
  from a b c d show ?thesis by (intro conjI)
qed

text \<open>
  Claim C3, amended. The status query changes a status to \<open>completed\<close> or not at all, and
  keeps a \<open>completed\<close> one; a stop removes the entry; and the supervising thread, when
  nothing else writes the entry between its steps, shows \<open>starting\<close>, then \<open>live\<close>, then
  \<open>completed\<close> once the child has exited, and its cleanup keeps \<open>completed\<close>.
\<close>

theorem status_writes:
  "status_of (snd (get_stream_status video_id st)) video_id \<in>
     {status_of st video_id, Some ''completed''} \<and>
   (status_of st video_id = Some ''completed'' \<longrightarrow>
      status_of (snd (get_stream_status video_id st)) video_id = Some ''completed'') \<and>
   status_of (snd (stop_stream video_id st)) video_id = None \<and>
   (platform \<in> {''youtube'', ''facebook'', ''instagram'', ''twitter''} \<longrightarrow>
      (\<exists>s1 s2 s3.
         run_ffmpeg_stream video_path stream_key loops video_id tid platform (Inr e) now raises Start st =
           (Sleeping (next_pid st), s1) \<and>
         status_of s1 video_id = Some ''starting'' \<and>
         run_ffmpeg_stream video_path stream_key loops video_id tid platform (Inr e) now raises
           (Sleeping (next_pid st)) s1 = (Waiting (next_pid st), s2) \<and>
         status_of s2 video_id = Some ''live'' \<and>
         run_ffmpeg_stream video_path stream_key loops video_id tid platform (Inr e) now raises
           (Waiting (next_pid st)) (child_exits (next_pid st) s2) = (Cleanup (next_pid st) None, s3) \<and>
         status_of s3 video_id = Some ''completed'' \<and>
         status_of (snd (run_ffmpeg_stream video_path stream_key loops video_id tid platform (Inr e) now
           raises (Cleanup (next_pid st) None) s3)) video_id = Some ''completed''))"
proof -
  have recon: "status_of (snd (get_stream_status video_id st)) video_id \<in>
     {status_of st video_id, Some ''completed''}"
    by (simp add: status_of_def get_stream_status_def Let_def split: option.splits)
  have keep: "status_of (snd (get_stream_status video_id st)) video_id = Some ''completed''"
    if "status_of st video_id = Some ''completed''"
    using that by (auto simp: status_of_def get_stream_status_def Let_def split: option.splits)
  have stop: "status_of (snd (stop_stream video_id st)) video_id = None"
    by (simp add: status_of_def stop_stream_def Let_def split: option.splits)
  have alone: "\<exists>s1 s2 s3.
         run_ffmpeg_stream video_path stream_key loops video_id tid platform (Inr e) now raises Start st =
           (Sleeping (next_pid st), s1) \<and>
         status_of s1 video_id = Some ''starting'' \<and>
         run_ffmpeg_stream video_path stream_key loops video_id tid platform (Inr e) now raises
           (Sleeping (next_pid st)) s1 = (Waiting (next_pid st), s2) \<and>
         status_of s2 video_id = Some ''live'' \<and>
         run_ffmpeg_stream video_path stream_key loops video_id tid platform (Inr e) now raises
           (Waiting (next_pid st)) (child_exits (next_pid st) s2) = (Cleanup (next_pid st) None, s3) \<and>
         status_of s3 video_id = Some ''completed'' \<and>
         status_of (snd (run_ffmpeg_stream video_path stream_key loops video_id tid platform (Inr e) now
           raises (Cleanup (next_pid st) None) s3)) video_id = Some ''completed''"
    if pl: "platform \<in> {''youtube'', ''facebook'', ''instagram'', ''twitter''}"
  proof -
    define p where "p = next_pid st"
    define x where "x = \<lparr>process = Some p, status = ''starting'', task_id = tid,
            start_time = now, error = None\<rparr>"
    define s1 where "s1 = st\<lparr>procs := (procs st)(p := \<lparr>running = True, exits_on_term = e\<rparr>),
         next_pid := Suc p, active_streams := (active_streams st)(video_id \<mapsto> x)\<rparr>"
    define s2 where "s2 = s1\<lparr>active_streams := (active_streams s1)(video_id \<mapsto> x\<lparr>status := ''live''\<rparr>)\<rparr>"
    define s2' where "s2' = child_exits p s2"
    define s3 where "s3 = s2'\<lparr>active_streams :=
        (active_streams s2')(video_id \<mapsto> x\<lparr>status := ''live'', status := ''completed''\<rparr>)\<rparr>"
    have 1: "run_ffmpeg_stream video_path stream_key loops video_id tid platform (Inr e) now raises Start st =
           (Sleeping p, s1)"
      unfolding p_def s1_def x_def by (rule start_step_spawn [OF platform_table_Some [OF pl]])
    have r1: "active_streams s1 video_id = Some x"
      by (simp add: s1_def)
    have 2: "run_ffmpeg_stream video_path stream_key loops video_id tid platform (Inr e) now raises
           (Sleeping p) s1 = (Waiting p, s2)"
      unfolding s2_def by (rule sleeping_step [OF r1])
    have r2: "active_streams s2' video_id = Some (x\<lparr>status := ''live''\<rparr>)"
      by (simp add: s2'_def s2_def child_exits_def)
    have ex: "\<not> running (procs s2' p)"
      by (simp add: s2'_def child_exits_def)
    have 3: "run_ffmpeg_stream video_path stream_key loops video_id tid platform (Inr e) now raises
           (Waiting p) s2' = (Cleanup p None, s3)"
      unfolding s3_def by (rule waiting_step [OF r2 ex])
    have st1: "status_of s1 video_id = Some ''starting''"
      by (simp add: status_of_def r1 x_def)
    have st2: "status_of s2 video_id = Some ''live''"
      by (simp add: status_of_def s2_def)
    have st3: "status_of s3 video_id = Some ''completed''"
      by (simp add: status_of_def s3_def)
    have st4: "status_of (snd (run_ffmpeg_stream video_path stream_key loops video_id tid platform (Inr e) now
           raises (Cleanup p None) s3)) video_id = Some ''completed''"
      using st3 by (simp add: status_of_def cleanup_step_registry)
    from 1 st1 2 st2 3 [unfolded s2'_def] st3 st4 show ?thesis
      unfolding p_def [symmetric] by (intro exI conjI)
  qed
  from recon keep stop alone show ?thesis by blast
qed

theorem status_writes_witness:
  "status_of s_reconciled ''v0'' = Some ''completed'' \<and>
   status_of (snd (get_stream_status ''v0'' s_reconciled)) ''v0'' = Some ''completed'' \<and>
   ''youtube'' \<in> {''youtube'', ''facebook'', ''instagram'', ''twitter''} \<and>
   (\<exists>s1 s2 s3.
      run_ffmpeg_stream ''uploads/a_v0.mp4'' ''k'' ''1'' ''v0'' ''t'' ''youtube'' (Inr True) ''now'' [] Start s_fresh =
        (Sleeping (next_pid s_fresh), s1) \<and>
      status_of s1 ''v0'' = Some ''starting'' \<and>
      run_ffmpeg_stream ''uploads/a_v0.mp4'' ''k'' ''1'' ''v0'' ''t'' ''youtube'' (Inr True) ''now'' []
        (Sleeping (next_pid s_fresh)) s1 = (Waiting (next_pid s_fresh), s2) \<and>
      status_of s2 ''v0'' = Some ''live'' \<and>
      run_ffmpeg_stream ''uploads/a_v0.mp4'' ''k'' ''1'' ''v0'' ''t'' ''youtube'' (Inr True) ''now'' []
        (Waiting (next_pid s_fresh)) (child_exits (next_pid s_fresh) s2) =
        (Cleanup (next_pid s_fresh) None, s3) \<and>
      status_of s3 ''v0'' = Some ''completed'' \<and>
      status_of (snd (run_ffmpeg_stream ''uploads/a_v0.mp4'' ''k'' ''1'' ''v0'' ''t'' ''youtube'' (Inr True) ''now''
        [] (Cleanup (next_pid s_fresh) None) s3)) ''v0'' = Some ''completed'')"
proof -
  have y: "''youtube'' \<in> {''youtube'', ''facebook'', ''instagram'', ''twitter''}"
    by simp
  note r = status_writes [where video_id = "''v0''" and st = s_reconciled,
      THEN conjunct2, THEN conjunct1, THEN mp, OF s_reconciled_status]
  note q = status_writes [where video_id = "''v0''" and st = s_fresh and platform = "''youtube''"
      and video_path = "''uploads/a_v0.mp4''" and stream_key = "''k''" and loops = "''1''"
      and tid = "''t''" and e = True and now = "''now''" and raises = "[]",
      THEN conjunct2, THEN conjunct2, THEN conjunct2, THEN mp, OF y]
  show ?thesis
    using s_reconciled_status r y q by (intro conjI)
qed

subsection \<open>Two uploads of the same content\<close>

lemma run_pair_first_then_second:
  "run_pair H (va, pa) (vb, pb) [False, False, True, True] (Hashing, Hashing, st) =
     (Finished, Finished, post_process H vb pb (post_process H va pa st))"
  by (simp add: post_process_def pp_step_def Let_def split: sum.splits prod.splits pp_pc.splits)

lemma run_pair_second_then_first:
  "run_pair H (va, pa) (vb, pb) [True, True, False, False] (Hashing, Hashing, st) =
     (Finished, Finished, post_process H va pa (post_process H vb pb st))"
  by (simp add: post_process_def pp_step_def Let_def split: sum.splits prod.splits pp_pc.splits)

lemma post_process_fresh:
  assumes "map_of (files st) p = Some c" and "video_hashes st (H c) = None"
  shows "post_process H v p st =
     st\<lparr>video_hashes := (video_hashes st)(H c \<mapsto> v),
        timers := timers st @ [(900, DeleteIfNotStreamed v p)]\<rparr>"
  using assms by (simp add: post_process_def pp_step_def compute_file_hash_def)

lemma post_process_dup:
  assumes "map_of (files st) p = Some c" and "video_hashes st (H c) = Some w"
  shows "post_process H v p st = st\<lparr>files := AList.delete p (files st)\<rparr>"
  using assms
  by (simp add: post_process_def pp_step_def compute_file_hash_def os_remove_def os_path_exists_def)

lemma one_after_the_other:
  assumes "map_of (files st) pa = Some c" and "map_of (files st) pb = Some c" and "pa \<noteq> pb"
    and "video_hashes st (H c) = None"
  shows "post_process H vb pb (post_process H va pa st) =
     st\<lparr>video_hashes := (video_hashes st)(H c \<mapsto> va),
        timers := timers st @ [(900, DeleteIfNotStreamed va pa)],
        files := AList.delete pb (files st)\<rparr>"
proof -
  have 1: "post_process H va pa st =
     st\<lparr>video_hashes := (video_hashes st)(H c \<mapsto> va),
        timers := timers st @ [(900, DeleteIfNotStreamed va pa)]\<rparr>"
    by (rule post_process_fresh [where H = H and c = c, OF assms(1) assms(4)])
  show ?thesis
    unfolding 1 by (subst post_process_dup [where H = H and c = c and w = va]) (simp_all add: assms)
qed

text \<open>
  Claim C2 as stated fails: when both threads evaluate \<^verbatim>\<open>file_hash in video_hashes\<close> before
  either inserts, both take the branch of line 85, both files stay in the store, and the
  index keeps the id written last.
\<close>

theorem interleaved_hashing_keeps_both:
  "map_of (files s_two) ''uploads/a_v0.mp4'' = map_of (files s_two) ''uploads/b_v1.mp4'' \<and>
   fst interleaved = Finished \<and> fst (snd interleaved) = Finished \<and>
   os_path_exists (files (snd (snd interleaved))) ''uploads/a_v0.mp4'' \<and>
   os_path_exists (files (snd (snd interleaved))) ''uploads/b_v1.mp4'' \<and>
   video_hashes (snd (snd interleaved)) (H0 ''AAAAAAAAAA'') = Some ''v1''"
  by (simp add: interleaved_def s_two_def s_empty_def pp_step_def compute_file_hash_def H0_def
      os_path_exists_def)

text \<open>
  Claim C2, amended. When the two threads run one after the other, in either order, on two
  stored files of the same content whose hash is not yet indexed, both finish, exactly the
  file of the thread that ran first stays, and the index maps the hash to its id. When
  each thread evaluates the membership test before either runs its branch (the four
  schedules \<open>[x, \<not> x, y, \<not> y]\<close>), both finish and both files stay.
\<close>

theorem sequential_hashing_keeps_one:
  "map_of (files st) pa = Some c \<and> map_of (files st) pb = Some c \<and> pa \<noteq> pb \<and>
   video_hashes st (H c) = None \<longrightarrow>
     (\<exists>s'. run_pair H (va, pa) (vb, pb) [False, False, True, True] (Hashing, Hashing, st) =
              (Finished, Finished, s') \<and>
           os_path_exists (files s') pa \<and> \<not> os_path_exists (files s') pb \<and>
           video_hashes s' (H c) = Some va) \<and>
     (\<exists>s'. run_pair H (va, pa) (vb, pb) [True, True, False, False] (Hashing, Hashing, st) =
              (Finished, Finished, s') \<and>
           os_path_exists (files s') pb \<and> \<not> os_path_exists (files s') pa \<and>
           video_hashes s' (H c) = Some vb) \<and>
     (\<forall>x y. \<exists>s'. run_pair H (va, pa) (vb, pb) [x, \<not> x, y, \<not> y] (Hashing, Hashing, st) =
              (Finished, Finished, s') \<and>
           os_path_exists (files s') pa \<and> os_path_exists (files s') pb)"
proof (intro impI, elim conjE)
  assume a: "map_of (files st) pa = Some c" and b: "map_of (files st) pb = Some c"
    and ne: "pa \<noteq> pb" and fresh: "video_hashes st (H c) = None"
  have ab: "\<exists>s'. run_pair H (va, pa) (vb, pb) [False, False, True, True] (Hashing, Hashing, st) =
              (Finished, Finished, s') \<and>
           os_path_exists (files s') pa \<and> \<not> os_path_exists (files s') pb \<and>
           video_hashes s' (H c) = Some va"
    unfolding run_pair_first_then_second one_after_the_other [where H = H and c = c, OF a b ne fresh]
    using a ne by (simp add: os_path_exists_def delete_conv')
  have ba: "\<exists>s'. run_pair H (va, pa) (vb, pb) [True, True, False, False] (Hashing, Hashing, st) =
              (Finished, Finished, s') \<and>
           os_path_exists (files s') pb \<and> \<not> os_path_exists (files s') pa \<and>
           video_hashes s' (H c) = Some vb"
    unfolding run_pair_second_then_first one_after_the_other [where H = H and c = c, OF b a ne [symmetric] fresh]
    using b ne by (simp add: os_path_exists_def delete_conv')
  have both: "\<forall>x y. \<exists>s'. run_pair H (va, pa) (vb, pb) [x, \<not> x, y, \<not> y] (Hashing, Hashing, st) =
              (Finished, Finished, s') \<and>
           os_path_exists (files s') pa \<and> os_path_exists (files s') pb"
  proof (intro allI)
    fix x y
    show "\<exists>s'. run_pair H (va, pa) (vb, pb) [x, \<not> x, y, \<not> y] (Hashing, Hashing, st) =
              (Finished, Finished, s') \<and>
           os_path_exists (files s') pa \<and> os_path_exists (files s') pb"
      using a b fresh
      by (cases x; cases y) (simp_all add: pp_step_def compute_file_hash_def os_path_exists_def)
  qed
  from ab ba both show "(\<exists>s'. run_pair H (va, pa) (vb, pb) [False, False, True, True] (Hashing, Hashing, st) =
              (Finished, Finished, s') \<and>
           os_path_exists (files s') pa \<and> \<not> os_path_exists (files s') pb \<and>
           video_hashes s' (H c) = Some va) \<and>
     (\<exists>s'. run_pair H (va, pa) (vb, pb) [True, True, False, False] (Hashing, Hashing, st) =
              (Finished, Finished, s') \<and>
           os_path_exists (files s') pb \<and> \<not> os_path_exists (files s') pa \<and>
           video_hashes s' (H c) = Some vb) \<and>
     (\<forall>x y. \<exists>s'. run_pair H (va, pa) (vb, pb) [x, \<not> x, y, \<not> y] (Hashing, Hashing, st) =
              (Finished, Finished, s') \<and>
           os_path_exists (files s') pa \<and> os_path_exists (files s') pb)"
    by (intro conjI)
qed

theorem sequential_hashing_keeps_one_witness:
  "map_of (files s_two) ''uploads/a_v0.mp4'' = Some ''AAAAAAAAAA'' \<and>
   map_of (files s_two) ''uploads/b_v1.mp4'' = Some ''AAAAAAAAAA'' \<and>
   ''uploads/a_v0.mp4'' \<noteq> ''uploads/b_v1.mp4'' \<and>
   video_hashes s_two (H0 ''AAAAAAAAAA'') = None \<and>
   (\<exists>s'. run_pair H0 (''v0'', ''uploads/a_v0.mp4'') (''v1'', ''uploads/b_v1.mp4'')
            [False, False, True, True] (Hashing, Hashing, s_two) = (Finished, Finished, s') \<and>
         os_path_exists (files s') ''uploads/a_v0.mp4'' \<and>
         \<not> os_path_exists (files s') ''uploads/b_v1.mp4'' \<and>
         video_hashes s' (H0 ''AAAAAAAAAA'') = Some ''v0'')"
proof -
  have h: "map_of (files s_two) ''uploads/a_v0.mp4'' = Some ''AAAAAAAAAA'' \<and>
      map_of (files s_two) ''uploads/b_v1.mp4'' = Some ''AAAAAAAAAA'' \<and>
      ''uploads/a_v0.mp4'' \<noteq> ''uploads/b_v1.mp4'' \<and>
      video_hashes s_two (H0 ''AAAAAAAAAA'') = None"
    by (simp add: s_two_def s_empty_def)
  note r = sequential_hashing_keeps_one [where st = s_two and H = H0 and c = "''AAAAAAAAAA''"
      and pa = "''uploads/a_v0.mp4''" and pb = "''uploads/b_v1.mp4''" and va = "''v0''"
      and vb = "''v1''", THEN mp, OF h]
  show ?thesis
    using h [THEN conjunct1] h [THEN conjunct2, THEN conjunct1]
      h [THEN conjunct2, THEN conjunct2, THEN conjunct1]
      h [THEN conjunct2, THEN conjunct2, THEN conjunct2] r [THEN conjunct1]
    by (intro conjI)
qed

end
